theory Spec2Isabelle
  imports Main
begin

section \<open>JSON texts as the service reads them\<close>

text \<open>
  The service is an HTTP front end written in Go (\<^verbatim>\<open>src/main.go\<close>). Every input it
  interprets is a JSON text: the request body of \<^verbatim>\<open>/api/analyze\<close>, the envelope the
  inference backend answers with, the moderation verdict inside that envelope, and the
  configuration file. The handlers reach these texts through two entry points of
  \<^verbatim>\<open>encoding/json\<close>: \<^verbatim>\<open>json.Unmarshal\<close>, which accepts a text only when the whole
  of it is one JSON value, and \<^verbatim>\<open>json.NewDecoder(r).Decode\<close>, which reads the first JSON
  value of a stream and leaves what follows unread. The package belongs to Go's
  standard library, not to the repository; its scanner and its decoder are modelled
  here over byte strings as they behave, so that the handlers below can be run on
  concrete request bodies.

  A JSON value keeps the members of an object in the order of the text, duplicates
  included, since the decoder processes them one after the other. A number keeps its
  literal.
\<close>

datatype json =
    JNull
  | JBool bool
  | JNumber string
  | JString string
  | JArray "json list"
  | JObject "(string \<times> json) list"

subsection \<open>Bytes, escapes and UTF-8\<close>

text \<open>
  A Go string is a sequence of bytes, and so is a \<^typ>\<open>string\<close> here. The scanner of
  \<^verbatim>\<open>encoding/json\<close> looks at single bytes; when a string literal is unquoted, escapes
  are replaced, a \<^verbatim>\<open>\u\<close> escape is written as UTF-8 (a surrogate pair as one code
  point, a lone surrogate as U+FFFD), and a byte sequence that is not well-formed UTF-8
  is replaced by U+FFFD byte by byte.
\<close>

definition byte :: "char \<Rightarrow> nat" where
  "byte c = of_char c"

definition isSpace :: "char \<Rightarrow> bool" where
  "isSpace c = (c = CHR '' '' \<or> c = CHR 0x09 \<or> c = CHR 0x0D \<or> c = CHR 0x0A)"

definition isDigit :: "char \<Rightarrow> bool" where
  "isDigit c = (48 \<le> byte c \<and> byte c \<le> 57)"

definition hexval :: "char \<Rightarrow> nat option" where
  "hexval c =
     (let n = byte c in
      if 48 \<le> n \<and> n \<le> 57 then Some (n - 48)
      else if 97 \<le> n \<and> n \<le> 102 then Some (n - 87)
      else if 65 \<le> n \<and> n \<le> 70 then Some (n - 55)
      else None)"

fun getu4 :: "string \<Rightarrow> nat option" where
  "getu4 (a # b # c # d # _) =
     (case (hexval a, hexval b, hexval c, hexval d) of
        (Some w, Some x, Some y, Some z) \<Rightarrow> Some (((w * 16 + x) * 16 + y) * 16 + z)
      | _ \<Rightarrow> None)"
| "getu4 _ = None"

definition RuneError :: string where
  "RuneError = [CHR 0xEF, CHR 0xBF, CHR 0xBD]"

definition AppendRune :: "nat \<Rightarrow> string" where
  "AppendRune r =
     (if r < 0x80 then [char_of r]
      else if r < 0x800 then [char_of (0xC0 + r div 64), char_of (0x80 + r mod 64)]
      else if (0xD800 \<le> r \<and> r < 0xE000) \<or> 0x10FFFF < r then RuneError
      else if r < 0x10000 then
        [char_of (0xE0 + r div 4096), char_of (0x80 + (r div 64) mod 64), char_of (0x80 + r mod 64)]
      else
        [char_of (0xF0 + r div 262144), char_of (0x80 + (r div 4096) mod 64),
         char_of (0x80 + (r div 64) mod 64), char_of (0x80 + r mod 64)])"

definition utf16_DecodeRune :: "nat \<Rightarrow> nat option \<Rightarrow> nat option" where
  "utf16_DecodeRune r1 r2 =
     (case r2 of
        None \<Rightarrow> None
      | Some r2' \<Rightarrow>
          if 0xD800 \<le> r1 \<and> r1 < 0xDC00 \<and> 0xDC00 \<le> r2' \<and> r2' < 0xE000
          then Some ((r1 - 0xD800) * 1024 + (r2' - 0xDC00) + 0x10000)
          else None)"

definition escaped_u4 :: "string \<Rightarrow> nat option" where
  "escaped_u4 s =
     (case s of
        b # u # rest \<Rightarrow> if b = CHR 0x5C \<and> u = CHR ''u'' then getu4 rest else None
      | _ \<Rightarrow> None)"

definition continuation :: "char \<Rightarrow> bool" where
  "continuation c = (0x80 \<le> byte c \<and> byte c \<le> 0xBF)"

definition DecodeRune_size :: "string \<Rightarrow> nat" where
  "DecodeRune_size s =
     (case s of
        [] \<Rightarrow> 0
      | c # cs \<Rightarrow>
          (let n = byte c in
           if n < 0x80 then 1
           else if 0xC2 \<le> n \<and> n \<le> 0xDF then
             (case cs of b # _ \<Rightarrow> if continuation b then 2 else 0 | _ \<Rightarrow> 0)
           else if 0xE0 \<le> n \<and> n \<le> 0xEF then
             (case cs of
                b # b2 # _ \<Rightarrow>
                  if (if n = 0xE0 then 0xA0 else 0x80) \<le> byte b
                     \<and> byte b \<le> (if n = 0xED then 0x9F else 0xBF)
                     \<and> continuation b2
                  then 3 else 0
              | _ \<Rightarrow> 0)
           else if 0xF0 \<le> n \<and> n \<le> 0xF4 then
             (case cs of
                b # b2 # b3 # _ \<Rightarrow>
                  if (if n = 0xF0 then 0x90 else 0x80) \<le> byte b
                     \<and> byte b \<le> (if n = 0xF4 then 0x8F else 0xBF)
                     \<and> continuation b2 \<and> continuation b3
                  then 4 else 0
              | _ \<Rightarrow> 0)
           else 0))"

subsection \<open>String literals\<close>

text \<open>
  \<open>unquote\<close> reads a string literal from just after its opening quote and returns the
  decoded bytes and the text after the closing quote. It fails on an unterminated
  literal, on a control character and on an escape the scanner does not know.
\<close>

definition simple_escape :: "char \<Rightarrow> char option" where
  "simple_escape e =
     (if e = CHR 0x22 \<or> e = CHR 0x5C \<or> e = CHR ''/'' then Some e
      else if e = CHR ''b'' then Some (CHR 0x08)
      else if e = CHR ''f'' then Some (CHR 0x0C)
      else if e = CHR ''n'' then Some (CHR 0x0A)
      else if e = CHR ''r'' then Some (CHR 0x0D)
      else if e = CHR ''t'' then Some (CHR 0x09)
      else None)"

definition emit :: "string \<Rightarrow> (string \<times> string) option \<Rightarrow> (string \<times> string) option" where
  "emit out r = (case r of None \<Rightarrow> None | Some (s, rest) \<Rightarrow> Some (out @ s, rest))"

lemma emit_cong [fundef_cong]: "out = out' \<Longrightarrow> r = r' \<Longrightarrow> emit out r = emit out' r'"
  by simp

function unquote :: "string \<Rightarrow> (string \<times> string) option" where
  "unquote [] = None"
| "unquote (c # cs) =
     (if c = CHR 0x22 then Some ([], cs)
      else if c = CHR 0x5C then
        (case cs of
           [] \<Rightarrow> None
         | e # cs' \<Rightarrow>
             if e = CHR ''u'' then
               (case getu4 cs' of
                  None \<Rightarrow> None
                | Some r \<Rightarrow>
                    (case utf16_DecodeRune r (escaped_u4 (drop 4 cs')) of
                       Some r' \<Rightarrow> emit (AppendRune r') (unquote (drop 10 cs'))
                     | None \<Rightarrow> emit (AppendRune r) (unquote (drop 4 cs'))))
             else
               (case simple_escape e of
                  None \<Rightarrow> None
                | Some x \<Rightarrow> emit [x] (unquote cs')))
      else if byte c < 0x20 then None
      else if byte c < 0x80 then emit [c] (unquote cs)
      else if DecodeRune_size (c # cs) = 0 then emit RuneError (unquote cs)
      else emit (take (DecodeRune_size (c # cs)) (c # cs))
             (unquote (drop (DecodeRune_size (c # cs)) (c # cs))))"
  by pat_completeness auto
termination
  by (relation "measure length") auto

lemma emit_SomeD: "emit out r = Some (x, rest) \<Longrightarrow> \<exists>y. r = Some (y, rest)"
  by (auto simp: emit_def split: option.splits)

lemma unquote_Cons:
  assumes "unquote (c # cs) = Some (x, rest)"
  shows "rest = cs \<or> (\<exists>t y. unquote t = Some (y, rest) \<and> length t \<le> length cs)"
proof (cases "c = CHR 0x22")
  case True
  with assms show ?thesis by simp
next
  case quote: False
  show ?thesis
  proof (cases "c = CHR 0x5C")
    case True
    with assms quote obtain e cs' where cs: "cs = e # cs'"
      by (cases cs) auto
    show ?thesis
    proof (cases "e = CHR ''u''")
      case True
      with assms quote \<open>c = CHR 0x5C\<close> cs obtain t y
        where "unquote t = Some (y, rest)" "t = drop 10 cs' \<or> t = drop 4 cs'"
        by (auto split: option.splits dest!: emit_SomeD)
      then show ?thesis using cs by auto
    next
      case False
      with assms quote \<open>c = CHR 0x5C\<close> cs obtain y
        where "unquote cs' = Some (y, rest)"
        by (auto split: option.splits dest!: emit_SomeD)
      then show ?thesis using cs by auto
    qed
  next
    case False
    with assms quote obtain t y
      where "unquote t = Some (y, rest)"
        "t = cs \<or> (DecodeRune_size (c # cs) \<noteq> 0 \<and> t = drop (DecodeRune_size (c # cs)) (c # cs))"
      by (auto split: if_splits dest!: emit_SomeD)
    then show ?thesis by (auto simp del: drop_Suc_Cons) 
  qed
qed

lemma unquote_shorter: "unquote s = Some (x, rest) \<Longrightarrow> length rest < length s"
proof (induction "length s" arbitrary: s x rest rule: less_induct)
  case less
  show ?case
  proof (cases s)
    case Nil
    with less.prems show ?thesis by simp
  next
    case (Cons c cs)
    with less.prems unquote_Cons 
    consider "rest = cs" | t y where "unquote t = Some (y, rest)" "length t \<le> length cs"
      by blast
    then show ?thesis
    proof cases
      case 1
      then show ?thesis using Cons by simp
    next
      case 2
      with less.hyps [of t y rest] Cons show ?thesis by simp
    qed
  qed
qed

subsection \<open>Number literals\<close>

text \<open>
  The scanner's number states: an optional minus sign, then \<^verbatim>\<open>0\<close> or a digit from 1 to 9
  followed by digits, an optional fraction with at least one digit, and an optional
  exponent with at least one digit. The literal ends at the first byte that cannot extend
  it.
\<close>

definition digits :: "string \<Rightarrow> (string \<times> string) option" where
  "digits s =
     (if takeWhile isDigit s = [] then None
      else Some (takeWhile isDigit s, dropWhile isDigit s))"

definition exponent :: "string \<Rightarrow> string \<Rightarrow> (string \<times> string) option" where
  "exponent lit s =
     (case s of
        [] \<Rightarrow> Some (lit, s)
      | e # r \<Rightarrow>
          if e = CHR ''e'' \<or> e = CHR ''E'' then
            (case r of
               [] \<Rightarrow> None
             | sg # r' \<Rightarrow>
                 if sg = CHR ''+'' \<or> sg = CHR ''-'' then
                   (case digits r' of
                      None \<Rightarrow> None
                    | Some (ds, rest) \<Rightarrow> Some (lit @ [e, sg] @ ds, rest))
                 else
                   (case digits r of
                      None \<Rightarrow> None
                    | Some (ds, rest) \<Rightarrow> Some (lit @ [e] @ ds, rest)))
          else Some (lit, s))"

definition fraction :: "string \<Rightarrow> string \<Rightarrow> (string \<times> string) option" where
  "fraction lit s =
     (case s of
        [] \<Rightarrow> Some (lit, s)
      | d # r \<Rightarrow>
          if d = CHR ''.'' then
            (case digits r of
               None \<Rightarrow> None
             | Some (ds, rest) \<Rightarrow> exponent (lit @ [d] @ ds) rest)
          else exponent lit s)"

definition integer :: "string \<Rightarrow> string \<Rightarrow> (string \<times> string) option" where
  "integer lit s =
     (case s of
        [] \<Rightarrow> None
      | d # r \<Rightarrow>
          if d = CHR ''0'' then fraction (lit @ [d]) r
          else if isDigit d then
            fraction (lit @ d # takeWhile isDigit r) (dropWhile isDigit r)
          else None)"

definition number :: "string \<Rightarrow> (string \<times> string) option" where
  "number s =
     (case s of
        [] \<Rightarrow> None
      | c # r \<Rightarrow> if c = CHR ''-'' then integer [c] r else integer [] s)"

lemma digits_shorter: "digits s = Some (ds, rest) \<Longrightarrow> length rest < length s"
proof -
  assume a: "digits s = Some (ds, rest)"
  then have "takeWhile isDigit s \<noteq> []" and r: "rest = dropWhile isDigit s"
    by (auto simp: digits_def split: if_splits)
  then have pos: "0 < length (takeWhile isDigit s)" by simp
  have sum: "length (takeWhile isDigit s) + length (dropWhile isDigit s) = length s"
    by (metis length_append takeWhile_dropWhile_id)
  show ?thesis unfolding r using pos sum by linarith
qed

lemma exponent_shorter: "exponent lit s = Some (x, rest) \<Longrightarrow> length rest \<le> length s"
  by (auto simp: exponent_def split: list.splits if_splits option.splits
        dest!: digits_shorter)

lemma fraction_shorter: "fraction lit s = Some (x, rest) \<Longrightarrow> length rest \<le> length s"
  by (auto simp: fraction_def split: list.splits if_splits option.splits
        dest!: digits_shorter exponent_shorter)



lemma integer_shorter:
  assumes "integer lit s = Some (x, rest)"
  shows "length rest < length s"
proof (cases s)
  case Nil
  with assms show ?thesis by (simp add: integer_def)
next
  case (Cons d r)
  have dw: "length (dropWhile isDigit r) \<le> length r"
    by (simp add: length_dropWhile_le)
  from assms Cons have "fraction (lit @ [d]) r = Some (x, rest)
      \<or> fraction (lit @ d # takeWhile isDigit r) (dropWhile isDigit r) = Some (x, rest)"
    by (simp add: integer_def split: if_splits)
  then have "length rest \<le> length r"
    using dw by (auto dest!: fraction_shorter)
  with Cons show ?thesis by simp
qed

lemma number_shorter:
  assumes "number s = Some (x, rest)"
  shows "length rest < length s"
proof (cases s)
  case Nil
  with assms show ?thesis by (simp add: number_def)
next
  case (Cons c r)
  with assms have "integer [c] r = Some (x, rest) \<or> integer [] s = Some (x, rest)"
    by (simp add: number_def split: if_splits)
  then show ?thesis using Cons by (auto dest!: integer_shorter)
qed

subsection \<open>Tokens\<close>

datatype token =
    BeginObject | EndObject | BeginArray | EndArray | Colon | Comma
  | Literal json

definition keyword :: "string \<Rightarrow> string \<Rightarrow> string option" where
  "keyword w s = (if take (length w) s = w then Some (drop (length w) s) else None)"

definition next_token :: "string \<Rightarrow> (token \<times> string) option" where
  "next_token s =
     (case dropWhile isSpace s of
        [] \<Rightarrow> None
      | c # cs \<Rightarrow>
          if c = CHR ''{'' then Some (BeginObject, cs)
          else if c = CHR ''}'' then Some (EndObject, cs)
          else if c = CHR ''['' then Some (BeginArray, cs)
          else if c = CHR '']'' then Some (EndArray, cs)
          else if c = CHR '':'' then Some (Colon, cs)
          else if c = CHR '','' then Some (Comma, cs)
          else if c = CHR 0x22 then
            (case unquote cs of
               None \<Rightarrow> None
             | Some (x, rest) \<Rightarrow> Some (Literal (JString x), rest))
          else if c = CHR ''-'' \<or> isDigit c then
            (case number (c # cs) of
               None \<Rightarrow> None
             | Some (lit, rest) \<Rightarrow> Some (Literal (JNumber lit), rest))
          else
            (case keyword ''true'' (c # cs) of
               Some rest \<Rightarrow> Some (Literal (JBool True), rest)
             | None \<Rightarrow>
            (case keyword ''false'' (c # cs) of
               Some rest \<Rightarrow> Some (Literal (JBool False), rest)
             | None \<Rightarrow>
            (case keyword ''null'' (c # cs) of
               Some rest \<Rightarrow> Some (Literal JNull, rest)
             | None \<Rightarrow> None))))"

lemma keyword_shorter: "keyword w s = Some rest \<Longrightarrow> w \<noteq> [] \<Longrightarrow> length rest < length s"
  by (cases w; cases s) (auto simp: keyword_def split: if_splits)


lemma next_token_rest:
  assumes "next_token s = Some (t, rest)" and "dropWhile isSpace s = c # cs"
  shows "rest = cs \<or> (\<exists>x. unquote cs = Some (x, rest))
       \<or> (\<exists>x. number (c # cs) = Some (x, rest)) \<or> (\<exists>w \<in> {''true'', ''false'', ''null''}. keyword w (c # cs) = Some rest)"
  using assms unfolding next_token_def
  by (simp split: if_splits option.splits prod.splits)

lemma next_token_shorter:
  assumes "next_token s = Some (t, rest)"
  shows "length rest < length s"
proof -
  have ws: "length (dropWhile isSpace s) \<le> length s"
    by (simp add: length_dropWhile_le)
  from assms obtain c cs where cs: "dropWhile isSpace s = c # cs"
    by (auto simp: next_token_def split: list.splits)
  have "length rest \<le> length cs"
    using next_token_rest [OF assms cs]
    by (auto dest!: unquote_shorter number_shorter keyword_shorter)
  with ws cs show ?thesis by simp
qed

subsection \<open>The scanner\<close>

text \<open>
  The scanner of \<^verbatim>\<open>encoding/json\<close> is a state machine over a stack of open arrays and
  objects (\<^verbatim>\<open>parseState\<close>). \<open>scan\<close> runs it one token at a time and stops as soon as the
  top-level value is complete, returning the value and the unread rest of the text. The
  stack holds at most \<open>maxNestingDepth\<close> entries, as in Go.
\<close>

datatype frame =
    ArrayFrame "json list"
  | ObjectFrame "(string \<times> json) list" "string option"

datatype expect =
    ExpValue | ExpValueOrEnd | ExpKey | ExpKeyOrEnd | ExpColon | ExpCommaOrEnd

datatype step_result =
    Finished json
  | Continue expect "frame list"
  | Invalid

definition maxNestingDepth :: nat where
  "maxNestingDepth = 10000"

fun endValue :: "json \<Rightarrow> frame list \<Rightarrow> step_result" where
  "endValue v [] = Finished v"
| "endValue v (ArrayFrame acc # st) = Continue ExpCommaOrEnd (ArrayFrame (acc @ [v]) # st)"
| "endValue v (ObjectFrame acc (Some k) # st) =
     Continue ExpCommaOrEnd (ObjectFrame (acc @ [(k, v)]) None # st)"
| "endValue v (ObjectFrame acc None # st) = Invalid"

definition pushParseState :: "frame \<Rightarrow> expect \<Rightarrow> frame list \<Rightarrow> step_result" where
  "pushParseState f e st =
     (if length (f # st) \<le> maxNestingDepth then Continue e (f # st) else Invalid)"

fun beginValue :: "frame list \<Rightarrow> token \<Rightarrow> step_result" where
  "beginValue st (Literal v) = endValue v st"
| "beginValue st BeginArray = pushParseState (ArrayFrame []) ExpValueOrEnd st"
| "beginValue st BeginObject = pushParseState (ObjectFrame [] None) ExpKeyOrEnd st"
| "beginValue st _ = Invalid"

fun endContainer :: "frame list \<Rightarrow> token \<Rightarrow> step_result" where
  "endContainer (ArrayFrame acc # st) EndArray = endValue (JArray acc) st"
| "endContainer (ObjectFrame acc None # st) EndObject = endValue (JObject acc) st"
| "endContainer _ _ = Invalid"

fun beginKey :: "frame list \<Rightarrow> token \<Rightarrow> step_result" where
  "beginKey (ObjectFrame acc None # st) (Literal (JString k)) =
     Continue ExpColon (ObjectFrame acc (Some k) # st)"
| "beginKey _ _ = Invalid"

fun afterValue :: "frame list \<Rightarrow> token \<Rightarrow> step_result" where
  "afterValue (ArrayFrame acc # st) Comma = Continue ExpValue (ArrayFrame acc # st)"
| "afterValue (ObjectFrame acc None # st) Comma = Continue ExpKey (ObjectFrame acc None # st)"
| "afterValue st t = endContainer st t"

fun step :: "expect \<Rightarrow> frame list \<Rightarrow> token \<Rightarrow> step_result" where
  "step ExpValue st t = beginValue st t"
| "step ExpValueOrEnd st t = (if t = EndArray then endContainer st t else beginValue st t)"
| "step ExpKey st t = beginKey st t"
| "step ExpKeyOrEnd st t = (if t = EndObject then endContainer st t else beginKey st t)"
| "step ExpColon st t = (if t = Colon then Continue ExpValue st else Invalid)"
| "step ExpCommaOrEnd st t = afterValue st t"

function scan :: "expect \<Rightarrow> frame list \<Rightarrow> string \<Rightarrow> (json \<times> string) option" where
  "scan e st s =
     (case next_token s of
        None \<Rightarrow> None
      | Some (t, rest) \<Rightarrow>
          (case step e st t of
             Invalid \<Rightarrow> None
           | Finished v \<Rightarrow> Some (v, rest)
           | Continue e' st' \<Rightarrow> scan e' st' rest))"
  by pat_completeness auto
termination
  by (relation "measure (\<lambda>(e, st, s). length s)") (auto dest: next_token_shorter)

declare scan.simps [simp del]

subsection \<open>The two entry points\<close>

text \<open>
  \<open>readValue\<close> is what \<^verbatim>\<open>Decoder.Decode\<close> reads: the first value of the stream; the
  bytes after it are not looked at. \<open>checkValid\<close> is the check \<^verbatim>\<open>json.Unmarshal\<close> makes
  before decoding: the whole text is one value, with nothing but white space after it.
\<close>

definition readValue :: "string \<Rightarrow> (json \<times> string) option" where
  "readValue s = scan ExpValue [] s"

definition checkValid :: "string \<Rightarrow> json option" where
  "checkValid s =
     (case readValue s of
        None \<Rightarrow> None
      | Some (v, rest) \<Rightarrow> if list_all isSpace rest then Some v else None)"

section \<open>Decoding JSON values into the program's structs\<close>

text \<open>
  After scanning, \<^verbatim>\<open>encoding/json\<close> stores the value into the Go variable it was given.
  For a struct it goes through the members of the object in order; a member whose key
  names a field (exactly, or up to letter case) is stored into that field, any other
  member is skipped. A field the object does not mention keeps the value it had, which
  is the zero value here, since every target in the program is a fresh variable. JSON
  \<^verbatim>\<open>null\<close> leaves a \<^verbatim>\<open>bool\<close>, a \<^verbatim>\<open>string\<close> or a struct as it is and sets a slice or an
  interface to \<^verbatim>\<open>nil\<close>. A value of the wrong kind is an \<^verbatim>\<open>UnmarshalTypeError\<close>; the
  decoder reports the first one when it is done, and the program then drops the whole
  result, so the model stops at it.

  A Go slice is a list or \<^verbatim>\<open>nil\<close>: the difference shows when the slice is encoded.
  Letter case is folded for ASCII letters only; the two non-ASCII letters that Go also
  folds onto \<^verbatim>\<open>k\<close> and \<^verbatim>\<open>s\<close> are not modelled. A \<^verbatim>\<open>null\<close> element of a string array
  becomes the empty string, which is what the decoder leaves in a fresh slice.
\<close>

type_synonym 'a slice = "'a list option"

definition len :: "'a slice \<Rightarrow> nat" where
  "len xs = (case xs of None \<Rightarrow> 0 | Some l \<Rightarrow> length l)"

definition elems :: "'a slice \<Rightarrow> 'a list" where
  "elems xs = (case xs of None \<Rightarrow> [] | Some l \<Rightarrow> l)"

datatype json_error =
    SyntaxError
  | UnmarshalTypeError string

definition kind_of :: "json \<Rightarrow> string" where
  "kind_of v =
     (case v of
        JNull \<Rightarrow> ''null''
      | JBool _ \<Rightarrow> ''bool''
      | JNumber _ \<Rightarrow> ''number''
      | JString _ \<Rightarrow> ''string''
      | JArray _ \<Rightarrow> ''array''
      | JObject _ \<Rightarrow> ''object'')"

definition foldName :: "string \<Rightarrow> string" where
  "foldName = map (\<lambda>c. if 97 \<le> byte c \<and> byte c \<le> 122 then char_of (byte c - 32) else c)"

definition names_field :: "string \<Rightarrow> string \<Rightarrow> bool" where
  "names_field key name = (key = name \<or> foldName key = foldName name)"

definition decode_bool :: "bool \<Rightarrow> json \<Rightarrow> json_error + bool" where
  "decode_bool cur v =
     (case v of
        JBool b \<Rightarrow> Inr b
      | JNull \<Rightarrow> Inr cur
      | _ \<Rightarrow> Inl (UnmarshalTypeError (kind_of v)))"

definition decode_string :: "string \<Rightarrow> json \<Rightarrow> json_error + string" where
  "decode_string cur v =
     (case v of
        JString s \<Rightarrow> Inr s
      | JNull \<Rightarrow> Inr cur
      | _ \<Rightarrow> Inl (UnmarshalTypeError (kind_of v)))"

fun decode_elements :: "json list \<Rightarrow> json_error + string list" where
  "decode_elements [] = Inr []"
| "decode_elements (v # vs) =
     (case decode_string [] v of
        Inl e \<Rightarrow> Inl e
      | Inr s \<Rightarrow>
          (case decode_elements vs of
             Inl e \<Rightarrow> Inl e
           | Inr ss \<Rightarrow> Inr (s # ss)))"

definition decode_strings :: "string slice \<Rightarrow> json \<Rightarrow> json_error + string slice" where
  "decode_strings cur v =
     (case v of
        JNull \<Rightarrow> Inr None
      | JArray vs \<Rightarrow>
          (case decode_elements vs of
             Inl e \<Rightarrow> Inl e
           | Inr ss \<Rightarrow> Inr (Some ss))
      | _ \<Rightarrow> Inl (UnmarshalTypeError (kind_of v)))"


fun decode_members ::
  "('a \<Rightarrow> string \<Rightarrow> json \<Rightarrow> json_error + 'a) \<Rightarrow> 'a \<Rightarrow> (string \<times> json) list \<Rightarrow> json_error + 'a"
where
  "decode_members field a [] = Inr a"
| "decode_members field a ((k, v) # ms) =
     (case field a k v of
        Inl e \<Rightarrow> Inl e
      | Inr a' \<Rightarrow> decode_members field a' ms)"

definition decode_struct ::
  "('a \<Rightarrow> string \<Rightarrow> json \<Rightarrow> json_error + 'a) \<Rightarrow> 'a \<Rightarrow> json \<Rightarrow> json_error + 'a"
where
  "decode_struct field zero v =
     (case v of
        JNull \<Rightarrow> Inr zero
      | JObject ms \<Rightarrow> decode_members field zero ms
      | _ \<Rightarrow> Inl (UnmarshalTypeError (kind_of v)))"

definition Unmarshal ::
  "('a \<Rightarrow> string \<Rightarrow> json \<Rightarrow> json_error + 'a) \<Rightarrow> 'a \<Rightarrow> string \<Rightarrow> json_error + 'a"
where
  "Unmarshal field zero data =
     (case checkValid data of
        None \<Rightarrow> Inl SyntaxError
      | Some v \<Rightarrow> decode_struct field zero v)"

definition Decode ::
  "('a \<Rightarrow> string \<Rightarrow> json \<Rightarrow> json_error + 'a) \<Rightarrow> 'a \<Rightarrow> string \<Rightarrow> json_error + 'a"
where
  "Decode field zero stream =
     (case readValue stream of
        None \<Rightarrow> Inl SyntaxError
      | Some (v, unread) \<Rightarrow> decode_struct field zero v)"

section \<open>The data of the program\<close>

text \<open>
  The structs of \<^verbatim>\<open>main.go\<close>, with their JSON field names. Two structs have a field
  \<^verbatim>\<open>Model\<close> and two a field \<^verbatim>\<open>ViolatedPolicies\<close>; the second of each pair carries a
  suffix here.
\<close>

record Config =
  OllamaURL :: string
  Model :: string
  PromptTemplate :: string
  Policies :: "string slice"
  ResponseFormat :: json

record analyzeRequest =
  Messages :: "string slice"

record analysisResult =
  Content :: string
  IsSafe :: bool
  ViolatedPolicies :: "string slice"

record ollamaGenerateRequest =
  Model_req :: string
  Prompt :: string
  Stream :: bool
  Format :: json

record moderationResult =
  Safe :: bool
  ViolatedPolicies_mod :: "string slice"

record ollamaResp =
  Response :: string


definition zero_analyzeRequest :: analyzeRequest where
  "zero_analyzeRequest = \<lparr>Messages = None\<rparr>"

definition zero_moderationResult :: moderationResult where
  "zero_moderationResult = \<lparr>Safe = False, ViolatedPolicies_mod = None\<rparr>"

definition zero_ollamaResp :: ollamaResp where
  "zero_ollamaResp = \<lparr>Response = []\<rparr>"


definition analyzeRequest_field ::
  "analyzeRequest \<Rightarrow> string \<Rightarrow> json \<Rightarrow> json_error + analyzeRequest"
where
  "analyzeRequest_field r k v =
     (if names_field k ''messages'' then
        (case decode_strings (Messages r) v of
           Inl e \<Rightarrow> Inl e | Inr x \<Rightarrow> Inr (r\<lparr>Messages := x\<rparr>))
      else Inr r)"

definition moderationResult_field ::
  "moderationResult \<Rightarrow> string \<Rightarrow> json \<Rightarrow> json_error + moderationResult"
where
  "moderationResult_field m k v =
     (if names_field k ''safe'' then
        (case decode_bool (Safe m) v of
           Inl e \<Rightarrow> Inl e | Inr x \<Rightarrow> Inr (m\<lparr>Safe := x\<rparr>))
      else if names_field k ''violated_policies'' then
        (case decode_strings (ViolatedPolicies_mod m) v of
           Inl e \<Rightarrow> Inl e | Inr x \<Rightarrow> Inr (m\<lparr>ViolatedPolicies_mod := x\<rparr>))
      else Inr m)"

definition ollamaResp_field :: "ollamaResp \<Rightarrow> string \<Rightarrow> json \<Rightarrow> json_error + ollamaResp" where
  "ollamaResp_field r k v =
     (if names_field k ''response'' then
        (case decode_string (Response r) v of
           Inl e \<Rightarrow> Inl e | Inr x \<Rightarrow> Inr (r\<lparr>Response := x\<rparr>))
      else Inr r)"

text \<open>
  Encoding goes the other way. A \<^verbatim>\<open>nil\<close> slice is encoded as \<^verbatim>\<open>null\<close>, a slice without
  elements as \<^verbatim>\<open>[]\<close>; the fields of a struct appear in the order of their declaration.
\<close>

definition Marshal_strings :: "string slice \<Rightarrow> json" where
  "Marshal_strings xs = (case xs of None \<Rightarrow> JNull | Some l \<Rightarrow> JArray (map JString l))"

definition Marshal_analysisResult :: "analysisResult \<Rightarrow> json" where
  "Marshal_analysisResult r =
     JObject [(''content'', JString (Content r)),
              (''is_safe'', JBool (IsSafe r)),
              (''violated_policies'', Marshal_strings (ViolatedPolicies r))]"

definition Marshal_results :: "analysisResult list \<Rightarrow> json" where
  "Marshal_results rs = JArray (map Marshal_analysisResult rs)"

definition Marshal_ollamaGenerateRequest :: "ollamaGenerateRequest \<Rightarrow> json" where
  "Marshal_ollamaGenerateRequest g =
     JObject [(''model'', JString (Model_req g)),
              (''prompt'', JString (Prompt g)),
              (''stream'', JBool (Stream g)),
              (''format'', Format g)]"

section \<open>The world outside the program\<close>

text \<open>
  The program reads one file, renders a template with \<^verbatim>\<open>text/template\<close>, and talks to
  the backend through \<^verbatim>\<open>http.DefaultClient\<close>. None of the three is code of the
  repository, so each is a parameter: an environment says what the file system, the
  template engine, the URL parser behind \<^verbatim>\<open>http.NewRequestWithContext\<close> and the network
  answer. The network may answer the same request differently each time, so its answer
  depends on how many requests were sent before. A response carries its whole body.

  \<^item> \<open>ReadFile path\<close> is the contents of the file, or the error of \<^verbatim>\<open>os.ReadFile\<close>
    (\<open>Inl\<close>).
  \<^item> \<open>template_Parse t\<close> is the error of parsing the template text \<open>t\<close>, if it has one.
  \<^item> \<open>template_Execute t message policies\<close> is the text the template renders for the
    message and the policies, or the error of executing it (\<open>Inl\<close>).
  \<^item> \<open>url_Parse url\<close> is the error of parsing the URL, if it has one.
  \<^item> \<open>RoundTrip n req\<close> is the outcome of sending \<open>req\<close> after \<open>n\<close> earlier requests:
    a transport error (\<open>Inl\<close>) or the backend's response.
\<close>

record outgoing =
  out_Method :: string
  out_URL :: string
  out_Header :: "(string \<times> string) list"
  out_Body :: "json option"

record backend_response =
  StatusCode :: nat
  resp_Body :: string

record env =
  ReadFile :: "string \<Rightarrow> string + string"
  template_Parse :: "string \<Rightarrow> string option"
  template_Execute :: "string \<Rightarrow> string \<Rightarrow> string slice \<Rightarrow> string + string"
  url_Parse :: "string \<Rightarrow> string option"
  RoundTrip :: "nat \<Rightarrow> outgoing \<Rightarrow> string + backend_response"

datatype prompt_error =
    ErrParsingTemplate string
  | ErrExecutingTemplate string

datatype error =
    ErrGeneratingPrompt prompt_error
  | ErrAPIRequestFailed "string option"
  | ErrDecodingResponse json_error
  | ErrParsingModerationResult json_error


datatype log_entry =
    LogErrorAnalyzingMessage string error

text \<open>
  What the process has done so far: the requests it has sent to the backend, in order,
  and the lines it has logged.
\<close>

record world =
  sent :: "outgoing list"
  logged :: "log_entry list"

definition NewRequest :: "env \<Rightarrow> string \<Rightarrow> string \<Rightarrow> json option \<Rightarrow> string + outgoing" where
  "NewRequest e method url body =
     (case url_Parse e url of
        Some err \<Rightarrow> Inl err
      | None \<Rightarrow> Inr \<lparr>out_Method = method, out_URL = url, out_Header = [], out_Body = body\<rparr>)"

definition Do :: "env \<Rightarrow> outgoing \<Rightarrow> world \<Rightarrow> (string + backend_response) \<times> world" where
  "Do e req w = (RoundTrip e (length (sent w)) req, w\<lparr>sent := sent w @ [req]\<rparr>)"

subsection \<open>The response writer\<close>

text \<open>
  An \<^verbatim>\<open>http.ResponseWriter\<close>: the headers set so far, the status once it is written, and
  what was written to the body. The first write fixes the status to 200 when none was
  written before, and a second \<^verbatim>\<open>WriteHeader\<close> is ignored. \<open>Encoded v\<close> stands for
  the bytes \<^verbatim>\<open>json.Encoder\<close> writes for the value \<open>v\<close>.
\<close>

datatype chunk =
    Bytes string
  | Encoded json

record ResponseWriter =
  Header :: "string \<rightharpoonup> string"
  status :: "nat option"
  written :: "chunk list"

definition new_ResponseWriter :: ResponseWriter where
  "new_ResponseWriter = \<lparr>Header = Map.empty, status = None, written = []\<rparr>"

definition Header_Set :: "string \<Rightarrow> string \<Rightarrow> ResponseWriter \<Rightarrow> ResponseWriter" where
  "Header_Set k v w = w\<lparr>Header := (Header w)(k \<mapsto> v)\<rparr>"

definition WriteHeader :: "nat \<Rightarrow> ResponseWriter \<Rightarrow> ResponseWriter" where
  "WriteHeader code w = (if status w = None then w\<lparr>status := Some code\<rparr> else w)"

definition Write :: "chunk \<Rightarrow> ResponseWriter \<Rightarrow> ResponseWriter" where
  "Write c w = (WriteHeader 200 w)\<lparr>written := written w @ [c]\<rparr>"

definition http_Error :: "ResponseWriter \<Rightarrow> string \<Rightarrow> nat \<Rightarrow> ResponseWriter" where
  "http_Error w msg code =
     Write (Bytes (msg @ [CHR 0x0A]))
       (WriteHeader code
         (Header_Set ''X-Content-Type-Options'' ''nosniff''
           (Header_Set ''Content-Type'' ''text/plain; charset=utf-8'' w)))"

text \<open>The status the client sees: 200 when the handler never wrote one.\<close>

definition status_sent :: "ResponseWriter \<Rightarrow> nat" where
  "status_sent w = (case status w of None \<Rightarrow> 200 | Some code \<Rightarrow> code)"

record Request =
  Method :: string
  Body :: string

text \<open>
  A call either returns or panics. When a handler panics, \<^verbatim>\<open>net/http\<close> closes the
  connection and the client gets no response.
\<close>

datatype 'a run =
    Done 'a
  | Panic string

type_synonym HandlerFunc = "ResponseWriter \<Rightarrow> Request \<Rightarrow> world \<Rightarrow> ResponseWriter run \<times> world"

section \<open>The program\<close>

text \<open>
  \<^verbatim>\<open>src/main.go\<close> holds two revisions of the program. The later one, which reads its
  settings from \<^verbatim>\<open>config.json\<close>, is the one the specification describes and the one
  modelled here. The earlier revision has the model name, the backend address and the
  prompt built in; its request checks in \<^verbatim>\<open>handleAnalyze\<close>, its \<^verbatim>\<open>corsMiddleware\<close>, its
  \<^verbatim>\<open>handleOllamaHealth\<close> and its parsing of the moderation result are the same
  statements.
\<close>

subsection \<open>loadConfig\<close>


subsection \<open>generatePrompt\<close>

definition generatePrompt ::
  "env \<Rightarrow> string \<Rightarrow> string slice \<Rightarrow> string \<Rightarrow> prompt_error + string"
where
  "generatePrompt e message policies promptTemplate =
     (case template_Parse e promptTemplate of
        Some err \<Rightarrow> Inl (ErrParsingTemplate err)
      | None \<Rightarrow>
          (case template_Execute e promptTemplate message policies of
             Inl err \<Rightarrow> Inl (ErrExecutingTemplate err)
           | Inr prompt \<Rightarrow> Inr prompt))"

subsection \<open>analyzeMessage\<close>

text \<open>
  \<^verbatim>\<open>analyzeMessage\<close> returns a result, returns an error, or panics: it drops the error of
  \<^verbatim>\<open>http.NewRequestWithContext\<close>, so when the URL does not parse the request is \<^verbatim>\<open>nil\<close>
  and setting its header dereferences it.
\<close>

definition analyzeMessage ::
  "env \<Rightarrow> Config \<Rightarrow> string \<Rightarrow> world \<Rightarrow> (error + analysisResult) run \<times> world"
where
  "analyzeMessage e cfg message w =
     (case generatePrompt e message (Policies cfg) (PromptTemplate cfg) of
        Inl err \<Rightarrow> (Done (Inl (ErrGeneratingPrompt err)), w)
      | Inr prompt \<Rightarrow>
          (let ollamaReq = \<lparr>Model_req = Model cfg, Prompt = prompt, Stream = False,
                             Format = ResponseFormat cfg\<rparr>;
               reqBody = Marshal_ollamaGenerateRequest ollamaReq;
               url = OllamaURL cfg @ ''/api/generate''
           in case NewRequest e ''POST'' url (Some reqBody) of
                Inl _ \<Rightarrow> (Panic ''invalid memory address or nil pointer dereference'', w)
              | Inr req0 \<Rightarrow>
                  (let req = req0\<lparr>out_Header := [(''Content-Type'', ''application/json'')]\<rparr>
                   in case Do e req w of
                        (Inl err, w') \<Rightarrow> (Done (Inl (ErrAPIRequestFailed (Some err))), w')
                      | (Inr resp, w') \<Rightarrow>
                          if StatusCode resp \<noteq> 200
                          then (Done (Inl (ErrAPIRequestFailed None)), w')
                          else
                            (case Decode ollamaResp_field zero_ollamaResp (resp_Body resp) of
                               Inl err \<Rightarrow> (Done (Inl (ErrDecodingResponse err)), w')
                             | Inr ollamaResp \<Rightarrow>
                                 (case Unmarshal moderationResult_field zero_moderationResult
                                         (Response ollamaResp) of
                                    Inl err \<Rightarrow> (Done (Inl (ErrParsingModerationResult err)), w')
                                  | Inr modResult \<Rightarrow>
                                      (Done (Inr \<lparr>Content = message, IsSafe = Safe modResult,
                                                   ViolatedPolicies = ViolatedPolicies_mod modResult\<rparr>),
                                       w'))))))"

subsection \<open>handleAnalyze\<close>

text \<open>
  The loop over the messages: a message whose analysis returns an error is logged and
  skipped, a result is appended. A panic ends the handler.
\<close>

fun analyze_loop ::
  "env \<Rightarrow> Config \<Rightarrow> string list \<Rightarrow> analysisResult list \<Rightarrow> world
     \<Rightarrow> analysisResult list run \<times> world"
where
  "analyze_loop e cfg [] results w = (Done results, w)"
| "analyze_loop e cfg (message # rest) results w =
     (case analyzeMessage e cfg message w of
        (Panic p, w') \<Rightarrow> (Panic p, w')
      | (Done (Inl err), w') \<Rightarrow>
          analyze_loop e cfg rest results
            (w'\<lparr>logged := logged w' @ [LogErrorAnalyzingMessage message err]\<rparr>)
      | (Done (Inr result), w') \<Rightarrow> analyze_loop e cfg rest (results @ [result]) w')"

definition handleAnalyze :: "env \<Rightarrow> Config \<Rightarrow> HandlerFunc" where
  "handleAnalyze e cfg w r wd =
     (if Method r \<noteq> ''POST'' then (Done (http_Error w ''Method not allowed'' 405), wd)
      else
        (case Decode analyzeRequest_field zero_analyzeRequest (Body r) of
           Inl _ \<Rightarrow> (Done (http_Error w ''Invalid request body'' 400), wd)
         | Inr req \<Rightarrow>
             if len (Messages req) = 0
             then (Done (http_Error w ''Messages array cannot be empty'' 400), wd)
             else
               (case analyze_loop e cfg (elems (Messages req)) [] wd of
                  (Panic p, wd') \<Rightarrow> (Panic p, wd')
                | (Done results, wd') \<Rightarrow>
                    (Done
                       (Write (Encoded (Marshal_results results))
                          (Header_Set ''Content-Type'' ''application/json'' w)),
                     wd'))))"

subsection \<open>corsMiddleware\<close>

definition corsMiddleware :: "HandlerFunc \<Rightarrow> HandlerFunc" where
  "corsMiddleware next w r wd =
     (let w' = Header_Set ''Access-Control-Allow-Headers'' ''Content-Type''
                 (Header_Set ''Access-Control-Allow-Methods'' ''POST, OPTIONS''
                   (Header_Set ''Access-Control-Allow-Origin'' ''*'' w))
      in if Method r = ''OPTIONS'' then (Done (WriteHeader 200 w'), wd)
         else next w' r wd)"

subsection \<open>handleOllamaHealth\<close>

fun itoa :: "nat \<Rightarrow> string" where
  "itoa n = (if n < 10 then [char_of (48 + n)] else itoa (n div 10) @ [char_of (48 + n mod 10)])"

declare itoa.simps [simp del]

definition handleOllamaHealth :: "env \<Rightarrow> string \<Rightarrow> HandlerFunc" where
  "handleOllamaHealth e ollamaURL w r wd =
     (let url = ollamaURL @ ''/api/version''
      in case NewRequest e ''GET'' url None of
           Inl err \<Rightarrow>
             (Done (http_Error w (''creating version request: '' @ err) 503), wd)
         | Inr req \<Rightarrow>
             (case Do e req wd of
                (Inl err, wd') \<Rightarrow>
                  (Done (http_Error w (''connecting to Ollama: '' @ err) 503), wd')
              | (Inr resp, wd') \<Rightarrow>
                  if StatusCode resp \<noteq> 200 then
                    (Done
                       (http_Error w
                          (''unexpected version status code '' @ itoa (StatusCode resp)
                             @ '': '' @ resp_Body resp)
                          502),
                     wd')
                  else
                    (Done (Write (Bytes (resp_Body resp)) (Write (Bytes ''ollama: '') w)),
                     wd')))"

subsection \<open>main\<close>



definition api_health :: "env \<Rightarrow> Config \<Rightarrow> HandlerFunc" where
  "api_health e cfg = corsMiddleware (handleOllamaHealth e (OllamaURL cfg))"

definition api_analyze :: "env \<Rightarrow> Config \<Rightarrow> HandlerFunc" where
  "api_analyze e cfg = corsMiddleware (handleAnalyze e cfg)"

section \<open>Notions used in the statements\<close>

subsection \<open>Values that fit a struct\<close>


definition fits_string :: "json \<Rightarrow> bool" where
  "fits_string v = (case v of JString _ \<Rightarrow> True | JNull \<Rightarrow> True | _ \<Rightarrow> False)"

definition fits_strings :: "json \<Rightarrow> bool" where
  "fits_strings v =
     (case v of JNull \<Rightarrow> True | JArray vs \<Rightarrow> list_all fits_string vs | _ \<Rightarrow> False)"

definition fits_struct :: "(string \<Rightarrow> json \<Rightarrow> bool) \<Rightarrow> json \<Rightarrow> bool" where
  "fits_struct member v =
     (case v of
        JNull \<Rightarrow> True
      | JObject ms \<Rightarrow> list_all (\<lambda>(k, x). member k x) ms
      | _ \<Rightarrow> False)"


definition analyzeRequest_member :: "string \<Rightarrow> json \<Rightarrow> bool" where
  "analyzeRequest_member k x = (names_field k ''messages'' \<longrightarrow> fits_strings x)"


definition ollamaResp_member :: "string \<Rightarrow> json \<Rightarrow> bool" where
  "ollamaResp_member k x = (names_field k ''response'' \<longrightarrow> fits_string x)"


subsection \<open>The request for one message and the reading of its reply\<close>

text \<open>
  \<open>generate_request\<close> is the request \<open>analyzeMessage\<close> builds from the configuration
  and a rendered prompt, and \<open>read_reply\<close> is what it makes of the outcome of sending
  it. The lemmas on \<open>analyzeMessage\<close> below connect the two to the function.
\<close>

definition generate_request :: "Config \<Rightarrow> string \<Rightarrow> outgoing" where
  "generate_request cfg prompt =
     \<lparr>out_Method = ''POST'',
      out_URL = OllamaURL cfg @ ''/api/generate'',
      out_Header = [(''Content-Type'', ''application/json'')],
      out_Body = Some (JObject [(''model'', JString (Model cfg)),
                                (''prompt'', JString prompt),
                                (''stream'', JBool False),
                                (''format'', ResponseFormat cfg)])\<rparr>"

definition read_reply :: "string \<Rightarrow> string + backend_response \<Rightarrow> error + analysisResult" where
  "read_reply message reply =
     (case reply of
        Inl err \<Rightarrow> Inl (ErrAPIRequestFailed (Some err))
      | Inr resp \<Rightarrow>
          if StatusCode resp \<noteq> 200 then Inl (ErrAPIRequestFailed None)
          else
            (case Decode ollamaResp_field zero_ollamaResp (resp_Body resp) of
               Inl err \<Rightarrow> Inl (ErrDecodingResponse err)
             | Inr ollamaResp \<Rightarrow>
                 (case Unmarshal moderationResult_field zero_moderationResult
                         (Response ollamaResp) of
                    Inl err \<Rightarrow> Inl (ErrParsingModerationResult err)
                  | Inr modResult \<Rightarrow>
                      Inr \<lparr>Content = message, IsSafe = Safe modResult,
                           ViolatedPolicies = ViolatedPolicies_mod modResult\<rparr>)))"

subsection \<open>The calls the loop makes\<close>

text \<open>
  \<open>analyses\<close> lists the outcomes of the calls of \<open>analyzeMessage\<close> that the loop of
  \<open>handleAnalyze\<close> makes for a list of messages, each in the world the calls before it
  have left; the list ends at a panic, as the loop does. \<open>results_of\<close> keeps the
  results of the calls that succeeded, in order.
\<close>

fun analyses :: "env \<Rightarrow> Config \<Rightarrow> string list \<Rightarrow> world \<Rightarrow> (error + analysisResult) run list" where
  "analyses e cfg [] w = []"
| "analyses e cfg (message # rest) w =
     (case analyzeMessage e cfg message w of
        (Panic p, w') \<Rightarrow> [Panic p]
      | (Done (Inl err), w') \<Rightarrow>
          Done (Inl err)
            # analyses e cfg rest (w'\<lparr>logged := logged w' @ [LogErrorAnalyzingMessage message err]\<rparr>)
      | (Done (Inr result), w') \<Rightarrow> Done (Inr result) # analyses e cfg rest w')"

definition returned :: "'a run \<Rightarrow> bool" where
  "returned x = (case x of Done _ \<Rightarrow> True | Panic _ \<Rightarrow> False)"

definition succeeded :: "(error + analysisResult) run \<Rightarrow> bool" where
  "succeeded x = (case x of Done (Inr _) \<Rightarrow> True | _ \<Rightarrow> False)"

fun results_of :: "(error + analysisResult) run list \<Rightarrow> analysisResult list" where
  "results_of [] = []"
| "results_of (Done (Inr result) # xs) = result # results_of xs"
| "results_of (_ # xs) = results_of xs"

section \<open>A concrete environment for running the handlers\<close>

text \<open>
  The theorems below hold for every environment. Where one has a hypothesis, it is also
  run once on concrete inputs, in the environment defined here: no configuration file
  on disk, every URL well formed, and a template engine that knows templates without
  actions, which render as their own text. The engine refuses a template that opens an
  action; for the template \<^verbatim>\<open>{{\<close> that is the "unclosed action" error of
  \<^verbatim>\<open>text/template\<close>. The network is a parameter of the environment.
\<close>

fun opens_action :: "string \<Rightarrow> bool" where
  "opens_action (a # b # cs) = ((a = CHR ''{'' \<and> b = CHR ''{'') \<or> opens_action (b # cs))"
| "opens_action _ = False"

definition plain_env :: "(nat \<Rightarrow> outgoing \<Rightarrow> string + backend_response) \<Rightarrow> env" where
  "plain_env net =
     \<lparr>ReadFile = (\<lambda>_. Inl ''open config.json: no such file or directory''),
      template_Parse = (\<lambda>t. if opens_action t then Some ''unclosed action'' else None),
      template_Execute = (\<lambda>t message policies. Inr t),
      url_Parse = (\<lambda>_. None),
      RoundTrip = net\<rparr>"

text \<open>A backend that is down, and one that answers every request the same way.\<close>

definition refused :: "nat \<Rightarrow> outgoing \<Rightarrow> string + backend_response" where
  "refused n req = Inl ''dial tcp 127.0.0.1:11434: connect: connection refused''"

definition answers :: "nat \<Rightarrow> string \<Rightarrow> nat \<Rightarrow> outgoing \<Rightarrow> string + backend_response" where
  "answers code body n req = Inr \<lparr>StatusCode = code, resp_Body = body\<rparr>"

text \<open>A backend that answers the first request one way and every later one another way.\<close>

definition first_then ::
  "backend_response \<Rightarrow> backend_response \<Rightarrow> nat \<Rightarrow> outgoing \<Rightarrow> string + backend_response"
where
  "first_then first others n req = (if n = 0 then Inr first else Inr others)"

text \<open>
  The body of a reply of the backend's generate endpoint whose \<^verbatim>\<open>response\<close> field is
  the given text (printable ASCII): the text as a JSON string literal, in the envelope.
\<close>

definition quote :: "string \<Rightarrow> string" where
  "quote s =
     [CHR 0x22]
       @ concat (map (\<lambda>c. if c = CHR 0x22 \<or> c = CHR 0x5C then [CHR 0x5C, c] else [c]) s)
       @ [CHR 0x22]"

definition generate_reply :: "string \<Rightarrow> string" where
  \<open>generate_reply text = ''{"response":'' @ quote text @ '',"done":true}''\<close>


definition cfg0 :: Config where
  "cfg0 =
     \<lparr>OllamaURL = ''http://localhost:11434'', Model = ''mistral'',
      PromptTemplate = ''Classify.'', Policies = Some [''hate/harassment''],
      ResponseFormat = JNull\<rparr>"

definition w0 :: world where
  "w0 = \<lparr>sent = [], logged = []\<rparr>"

lemma plain_env_sel [simp]:
  "ReadFile (plain_env net) = (\<lambda>_. Inl ''open config.json: no such file or directory'')"
  "template_Parse (plain_env net) t = (if opens_action t then Some ''unclosed action'' else None)"
  "template_Execute (plain_env net) t m ps = Inr t"
  "url_Parse (plain_env net) u = None"
  "RoundTrip (plain_env net) = net"
  by (simp_all add: plain_env_def)

lemma cfg0_sel [simp]:
  "OllamaURL cfg0 = ''http://localhost:11434''"
  "Model cfg0 = ''mistral''"
  "PromptTemplate cfg0 = ''Classify.''"
  "Policies cfg0 = Some [''hate/harassment'']"
  "ResponseFormat cfg0 = JNull"
  by (simp_all add: cfg0_def)

lemma w0_sel [simp]: "sent w0 = []" "logged w0 = []"
  by (simp_all add: w0_def)

lemma generatePrompt_plain [simp]:
  "generatePrompt (plain_env net) message policies ''Classify.'' = Inr ''Classify.''"
  by (simp add: generatePrompt_def)

section \<open>Facts about the response writer\<close>

lemma http_Error_status: "status w = None \<Longrightarrow> status (http_Error w msg code) = Some code"
  by (simp add: http_Error_def Write_def WriteHeader_def Header_Set_def)

lemma http_Error_written:
  "written (http_Error w msg code) = written w @ [Bytes (msg @ [CHR 0x0A])]"
  by (simp add: http_Error_def Write_def WriteHeader_def Header_Set_def)

lemma http_Error_status_sent: "status w = None \<Longrightarrow> status_sent (http_Error w msg code) = code"
  by (simp add: status_sent_def http_Error_status)

section \<open>Decoding fails exactly on values that do not fit\<close>


lemma isl_decode_string: "isl (decode_string cur v) \<longleftrightarrow> \<not> fits_string v"
  by (cases v) (simp_all add: decode_string_def fits_string_def)

lemma isl_decode_elements: "isl (decode_elements vs) \<longleftrightarrow> \<not> list_all fits_string vs"
proof (induction vs)
  case Nil
  show ?case by simp
next
  case (Cons v vs)
  show ?case
  proof (cases "decode_string [] v")
    case (Inl e)
    then have "\<not> fits_string v"
      using isl_decode_string [of "[]" v] by simp
    with Inl show ?thesis by simp
  next
    case (Inr s)
    then have "fits_string v"
      using isl_decode_string [of "[]" v] by simp
    with Inr Cons.IH show ?thesis
      by (cases "decode_elements vs") simp_all
  qed
qed

lemma isl_decode_strings: "isl (decode_strings cur v) \<longleftrightarrow> \<not> fits_strings v"
proof (cases v)
  case (JArray vs)
  with isl_decode_elements [of vs] show ?thesis
    by (cases "decode_elements vs") (simp_all add: decode_strings_def fits_strings_def)
qed (simp_all add: decode_strings_def fits_strings_def kind_of_def)

lemma isl_decode_members:
  assumes "\<And>a k v. isl (field a k v) \<longleftrightarrow> \<not> member k v"
  shows "isl (decode_members field a ms) \<longleftrightarrow> \<not> list_all (\<lambda>(k, x). member k x) ms"
proof (induction ms arbitrary: a)
  case Nil
  show ?case by simp
next
  case (Cons m ms)
  obtain k v where m: "m = (k, v)" by (cases m)
  show ?case
  proof (cases "field a k v")
    case (Inl e)
    with assms [of a k v] m show ?thesis by simp
  next
    case (Inr a')
    with assms [of a k v] m Cons.IH [of a'] show ?thesis by simp
  qed
qed

lemma isl_decode_struct:
  assumes "\<And>a k v. isl (field a k v) \<longleftrightarrow> \<not> member k v"
  shows "isl (decode_struct field zero v) \<longleftrightarrow> \<not> fits_struct member v"
  using isl_decode_members [of field member, OF assms]
  by (cases v) (simp_all add: decode_struct_def fits_struct_def)


lemma isl_Decode:
  assumes "\<And>a k v. isl (field a k v) \<longleftrightarrow> \<not> member k v"
  shows "isl (Decode field zero data)
     \<longleftrightarrow> (case readValue data of None \<Rightarrow> True | Some (v, unread) \<Rightarrow> \<not> fits_struct member v)"
  using isl_decode_struct [of field member, OF assms]
  by (simp add: Decode_def split: option.splits)

lemma length_foldName: "length (foldName s) = length s"
  by (simp add: foldName_def)

lemma names_field_length: "names_field k name \<Longrightarrow> length k = length name"
  using length_foldName [of k] length_foldName [of name]
  by (auto simp: names_field_def)

lemma isl_store:
  "isl (case r of Inl e \<Rightarrow> Inl e | Inr x \<Rightarrow> Inr (f x)) \<longleftrightarrow> isl r"
  by (cases r) simp_all


lemma isl_analyzeRequest_field:
  "isl (analyzeRequest_field a k v) \<longleftrightarrow> \<not> analyzeRequest_member k v"
  by (simp add: analyzeRequest_field_def analyzeRequest_member_def isl_store isl_decode_strings)

lemma isl_ollamaResp_field:
  "isl (ollamaResp_field a k v) \<longleftrightarrow> \<not> ollamaResp_member k v"
  by (simp add: ollamaResp_field_def ollamaResp_member_def isl_store isl_decode_string)



section \<open>The three paths of analyzeMessage\<close>

text \<open>
  The prompt cannot be rendered: an error, and nothing is sent. The prompt is rendered
  but the URL does not parse: a panic, and nothing is sent. Otherwise one request is
  sent, and the result is read from its outcome.
\<close>

lemma analyzeMessage_no_prompt:
  assumes "generatePrompt e message (Policies cfg) (PromptTemplate cfg) = Inl err"
  shows "analyzeMessage e cfg message w = (Done (Inl (ErrGeneratingPrompt err)), w)"
  using assms by (simp add: analyzeMessage_def)

lemma analyzeMessage_no_request:
  assumes "generatePrompt e message (Policies cfg) (PromptTemplate cfg) = Inr prompt"
    and "url_Parse e (OllamaURL cfg @ ''/api/generate'') = Some err"
  shows "analyzeMessage e cfg message w
     = (Panic ''invalid memory address or nil pointer dereference'', w)"
  using assms by (simp add: analyzeMessage_def NewRequest_def Let_def)

lemma analyzeMessage_request:
  assumes "generatePrompt e message (Policies cfg) (PromptTemplate cfg) = Inr prompt"
    and "url_Parse e (OllamaURL cfg @ ''/api/generate'') = None"
  shows "analyzeMessage e cfg message w
     = (Done (read_reply message (RoundTrip e (length (sent w)) (generate_request cfg prompt))),
        w\<lparr>sent := sent w @ [generate_request cfg prompt]\<rparr>)"
  using assms
  by (simp add: analyzeMessage_def NewRequest_def Let_def Do_def read_reply_def
        generate_request_def Marshal_ollamaGenerateRequest_def split: sum.splits)

section \<open>The CORS wrapper\<close>

text \<open>
  Claim C6. Both API routes are registered behind \<open>corsMiddleware\<close>. For an
  \<^verbatim>\<open>OPTIONS\<close> request the wrapper answers by itself: the response has status 200 and the
  header \<^verbatim>\<open>Access-Control-Allow-Origin: *\<close>, nothing is written to the body, the world
  is left as it was (no request to the backend, nothing logged), and the result is the
  same whatever the wrapped handler is and whatever the body of the request is: the
  wrapped handler is not run and the body is not read. For any other
  method the wrapper sets the same three headers and hands the request, unchanged, to
  the wrapped handler; what that handler returns is the result.
\<close>

theorem corsMiddleware_preflight:
  "(Method r = ''OPTIONS'' \<longrightarrow>
      (\<exists>w'. corsMiddleware next w r wd = (Done w', wd)
          \<and> corsMiddleware next' w r wd = (Done w', wd)
          \<and> corsMiddleware next w (r\<lparr>Body := body\<rparr>) wd = (Done w', wd)
          \<and> Header w' ''Access-Control-Allow-Origin'' = Some ''*''
          \<and> written w' = written w
          \<and> (status w = None \<longrightarrow> status_sent w' = 200)))
   \<and> (Method r \<noteq> ''OPTIONS'' \<longrightarrow>
      (\<exists>w'. corsMiddleware next w r wd = next w' r wd
          \<and> Header w' = (Header w)(''Access-Control-Allow-Origin'' \<mapsto> ''*'',
                                     ''Access-Control-Allow-Methods'' \<mapsto> ''POST, OPTIONS'',
                                     ''Access-Control-Allow-Headers'' \<mapsto> ''Content-Type'')
          \<and> status w' = status w
          \<and> written w' = written w))"
proof (intro conjI impI)
  let ?h = "w\<lparr>Header := (Header w)(''Access-Control-Allow-Origin'' \<mapsto> ''*'',
                                     ''Access-Control-Allow-Methods'' \<mapsto> ''POST, OPTIONS'',
                                     ''Access-Control-Allow-Headers'' \<mapsto> ''Content-Type'')\<rparr>"
  {
    assume "Method r = ''OPTIONS''"
    then show "\<exists>w'. corsMiddleware next w r wd = (Done w', wd)
          \<and> corsMiddleware next' w r wd = (Done w', wd)
          \<and> corsMiddleware next w (r\<lparr>Body := body\<rparr>) wd = (Done w', wd)
          \<and> Header w' ''Access-Control-Allow-Origin'' = Some ''*''
          \<and> written w' = written w
          \<and> (status w = None \<longrightarrow> status_sent w' = 200)"
      by (intro exI [of _ "WriteHeader 200 ?h"])
        (simp add: corsMiddleware_def Let_def Header_Set_def WriteHeader_def status_sent_def)
  }
  {
    assume "Method r \<noteq> ''OPTIONS''"
    then show "\<exists>w'. corsMiddleware next w r wd = next w' r wd
          \<and> Header w' = (Header w)(''Access-Control-Allow-Origin'' \<mapsto> ''*'',
                                     ''Access-Control-Allow-Methods'' \<mapsto> ''POST, OPTIONS'',
                                     ''Access-Control-Allow-Headers'' \<mapsto> ''Content-Type'')
          \<and> status w' = status w
          \<and> written w' = written w"
      by (intro exI [of _ ?h]) (simp add: corsMiddleware_def Let_def Header_Set_def)
  }
qed

text \<open>
  The wrapper run on the analyze route: a preflight request with a body the handler
  would reject leaves status 200 and an empty body; a \<^verbatim>\<open>GET\<close> goes through to the
  handler with the CORS header set.
\<close>

theorem corsMiddleware_preflight_witness:
  "Method \<lparr>Method = ''OPTIONS'', Body = ''not json''\<rparr> = ''OPTIONS''
   \<and> (\<exists>w'. api_analyze (plain_env refused) cfg0 new_ResponseWriter
              \<lparr>Method = ''OPTIONS'', Body = ''not json''\<rparr> w0 = (Done w', w0)
          \<and> Header w' ''Access-Control-Allow-Origin'' = Some ''*''
          \<and> written w' = []
          \<and> status_sent w' = 200)
   \<and> Method \<lparr>Method = ''GET'', Body = []\<rparr> \<noteq> ''OPTIONS''
   \<and> (\<exists>w'. api_analyze (plain_env refused) cfg0 new_ResponseWriter
              \<lparr>Method = ''GET'', Body = []\<rparr> w0
            = handleAnalyze (plain_env refused) cfg0 w' \<lparr>Method = ''GET'', Body = []\<rparr> w0
          \<and> Header w' ''Access-Control-Allow-Origin'' = Some ''*'')"
  using corsMiddleware_preflight [of "\<lparr>Method = ''OPTIONS'', Body = ''not json''\<rparr>"
          "handleAnalyze (plain_env refused) cfg0" new_ResponseWriter w0
          "handleAnalyze (plain_env refused) cfg0"]
        corsMiddleware_preflight [of "\<lparr>Method = ''GET'', Body = []\<rparr>"
          "handleAnalyze (plain_env refused) cfg0" new_ResponseWriter w0
          "handleAnalyze (plain_env refused) cfg0"]
  by (auto simp: new_ResponseWriter_def api_analyze_def)

section \<open>The health route\<close>

text \<open>
  What \<open>handleOllamaHealth\<close> does on a writer whose status is not yet written, by the
  outcome of its one request to the backend.
\<close>

lemma handleOllamaHealth_cases:
  assumes "status w = None"
  shows "handleOllamaHealth e ollamaURL w r wd =
     (case url_Parse e (ollamaURL @ ''/api/version'') of
        Some err \<Rightarrow> (Done (http_Error w (''creating version request: '' @ err) 503), wd)
      | None \<Rightarrow>
          (let req = \<lparr>out_Method = ''GET'', out_URL = ollamaURL @ ''/api/version'',
                       out_Header = [], out_Body = None\<rparr>;
               wd' = wd\<lparr>sent := sent wd @ [req]\<rparr>
           in case RoundTrip e (length (sent wd)) req of
                Inl err \<Rightarrow> (Done (http_Error w (''connecting to Ollama: '' @ err) 503), wd')
              | Inr resp \<Rightarrow>
                  if StatusCode resp \<noteq> 200 then
                    (Done (http_Error w (''unexpected version status code ''
                             @ itoa (StatusCode resp) @ '': '' @ resp_Body resp) 502), wd')
                  else
                    (Done (w\<lparr>status := Some 200,
                              written := written w @ [Bytes ''ollama: '', Bytes (resp_Body resp)]\<rparr>),
                     wd')))"
  using assms
  by (simp add: handleOllamaHealth_def NewRequest_def Do_def Let_def Write_def WriteHeader_def
        split: option.splits sum.splits)

text \<open>
  On the route, the handler stands behind the CORS wrapper: it gets every request whose
  method is not \<^verbatim>\<open>OPTIONS\<close>, with a response to which nothing is written yet.
\<close>

lemma api_health_handler:
  assumes "Method r \<noteq> ''OPTIONS''"
  shows "\<exists>w. api_health e cfg new_ResponseWriter r wd = handleOllamaHealth e (OllamaURL cfg) w r wd
     \<and> status w = None \<and> written w = []"
  using assms
  by (intro exI [of _ "new_ResponseWriter\<lparr>Header :=
        (Header new_ResponseWriter)(''Access-Control-Allow-Origin'' \<mapsto> ''*'',
           ''Access-Control-Allow-Methods'' \<mapsto> ''POST, OPTIONS'',
           ''Access-Control-Allow-Headers'' \<mapsto> ''Content-Type'')\<rparr>"])
    (simp add: api_health_def corsMiddleware_def Let_def Header_Set_def new_ResponseWriter_def)

text \<open>
  Claim C5. For every request that \<open>handleOllamaHealth\<close> gets on \<^verbatim>\<open>/api/health\<close>, the
  handler sends one \<^verbatim>\<open>GET\<close> to \<^verbatim>\<open>/api/version\<close> of the backend. When the connection
  fails the status is 503; when the backend answers with a status other than 200 the
  status is 502 and the response text holds the backend's status code and body;
  otherwise the status is 200 and the body is \<^verbatim>\<open>ollama: \<close> followed by the backend's
  body. The request can also fail to be built, when the configured URL does not parse:
  that is answered with 503 too, and no request is sent.
\<close>

theorem handleOllamaHealth_status:
  assumes "status w = None" and "written w = []"
    and "req = \<lparr>out_Method = ''GET'', out_URL = ollamaURL @ ''/api/version'',
                 out_Header = [], out_Body = None\<rparr>"
  shows "\<exists>w' wd'. handleOllamaHealth e ollamaURL w r wd = (Done w', wd')
     \<and> (case url_Parse e (ollamaURL @ ''/api/version'') of
          Some err \<Rightarrow> status_sent w' = 503 \<and> wd' = wd
        | None \<Rightarrow>
            wd' = wd\<lparr>sent := sent wd @ [req]\<rparr>
            \<and> (case RoundTrip e (length (sent wd)) req of
                 Inl err \<Rightarrow> status_sent w' = 503
               | Inr resp \<Rightarrow>
                   if StatusCode resp \<noteq> 200 then
                     status_sent w' = 502
                     \<and> written w' = [Bytes (''unexpected version status code ''
                                      @ itoa (StatusCode resp) @ '': '' @ resp_Body resp
                                      @ [CHR 0x0A])]
                   else
                     status_sent w' = 200
                     \<and> written w' = [Bytes ''ollama: '', Bytes (resp_Body resp)]))"
  unfolding handleOllamaHealth_cases [OF assms(1)] assms(3) [symmetric] Let_def
  using assms(1,2)
  by (auto simp: status_sent_def http_Error_status http_Error_written
        split: sum.splits option.splits)

text \<open>
  The three cases on concrete backends: one that refuses the connection, one that
  answers 500, one that answers 200.
\<close>

lemma itoa_500: "itoa 500 = ''500''"
  by code_simp

theorem handleOllamaHealth_status_witness:
  \<open>status new_ResponseWriter = None
   \<and> written new_ResponseWriter = []
   \<and> (\<exists>w' wd'. handleOllamaHealth (plain_env refused) (OllamaURL cfg0) new_ResponseWriter
                  \<lparr>Method = ''GET'', Body = []\<rparr> w0 = (Done w', wd')
        \<and> status_sent w' = 503 \<and> length (sent wd') = 1)
   \<and> (\<exists>w' wd'. handleOllamaHealth (plain_env (answers 500 ''model runner crashed''))
                  (OllamaURL cfg0) new_ResponseWriter \<lparr>Method = ''GET'', Body = []\<rparr> w0
                = (Done w', wd')
        \<and> status_sent w' = 502
        \<and> written w' = [Bytes (''unexpected version status code 500: model runner crashed''
                                 @ [CHR 0x0A])])
   \<and> (\<exists>w' wd'. handleOllamaHealth (plain_env (answers 200 ''{"version":"0.5.7"}''))
                  (OllamaURL cfg0) new_ResponseWriter \<lparr>Method = ''GET'', Body = []\<rparr> w0
                = (Done w', wd')
        \<and> status_sent w' = 200
        \<and> written w' = [Bytes ''ollama: '', Bytes ''{"version":"0.5.7"}''])\<close>
proof -
  have s: "status new_ResponseWriter = None" and n: "written new_ResponseWriter = []"
    by (simp_all add: new_ResponseWriter_def)
  note h = handleOllamaHealth_status [OF s n refl, where ollamaURL = "OllamaURL cfg0"
      and wd = w0 and r = "\<lparr>Method = ''GET'', Body = []\<rparr>"]
  show ?thesis
    using s n h [where e = "plain_env refused"]
      h [where e = "plain_env (answers 500 ''model runner crashed'')"]
      h [where e = \<open>plain_env (answers 200 ''{"version":"0.5.7"}'')\<close>]
    by (auto simp: refused_def answers_def itoa_500)
qed

section \<open>Parsing the moderation result\<close>



lemma names_safe [simp]: "names_field ''safe'' ''safe''"
  by (simp add: names_field_def)

lemma names_violated_policies [simp]: "names_field ''violated_policies'' ''violated_policies''"
  by (simp add: names_field_def)

lemma not_names_safe [simp]: "\<not> names_field ''violated_policies'' ''safe''"
  using names_field_length [of "''violated_policies''" "''safe''"] by auto

lemma not_names_violated_policies [simp]: "\<not> names_field ''safe'' ''violated_policies''"
  using names_field_length [of "''safe''" "''violated_policies''"] by auto



text \<open>The theorem on a backend whose model answers in prose.\<close>

lemma Decode_reply_refusal:
  \<open>Decode ollamaResp_field zero_ollamaResp (generate_reply ''Sorry, no.'')
     = Inr \<lparr>Response = ''Sorry, no.''\<rparr>\<close>
  by code_simp

lemma checkValid_refusal: \<open>checkValid ''Sorry, no.'' = None\<close>
  by code_simp


section \<open>Requests that handleAnalyze turns down\<close>

lemma names_messages [simp]: "names_field ''messages'' ''messages''"
  by (simp add: names_field_def)

lemma cors_passes:
  "Method r \<noteq> ''OPTIONS'' \<Longrightarrow>
     corsMiddleware next new_ResponseWriter r wd
       = next (new_ResponseWriter\<lparr>Header :=
            [''Access-Control-Allow-Origin'' \<mapsto> ''*'',
             ''Access-Control-Allow-Methods'' \<mapsto> ''POST, OPTIONS'',
             ''Access-Control-Allow-Headers'' \<mapsto> ''Content-Type'']\<rparr>) r wd"
  by (simp add: corsMiddleware_def Let_def Header_Set_def new_ResponseWriter_def)

lemma handleAnalyze_rejects:
  "Method r \<noteq> ''POST'' \<Longrightarrow>
     handleAnalyze e cfg w r wd = (Done (http_Error w ''Method not allowed'' 405), wd)"
  "Method r = ''POST'' \<Longrightarrow> isl (Decode analyzeRequest_field zero_analyzeRequest (Body r)) \<Longrightarrow>
     handleAnalyze e cfg w r wd = (Done (http_Error w ''Invalid request body'' 400), wd)"
  "Method r = ''POST'' \<Longrightarrow> Decode analyzeRequest_field zero_analyzeRequest (Body r) = Inr req \<Longrightarrow>
     len (Messages req) = 0 \<Longrightarrow>
     handleAnalyze e cfg w r wd = (Done (http_Error w ''Messages array cannot be empty'' 400), wd)"
  by (auto simp: handleAnalyze_def split: sum.splits)

lemma cors_writer [simp]:
  "status (new_ResponseWriter\<lparr>Header := h\<rparr>) = None"
  "written (new_ResponseWriter\<lparr>Header := h\<rparr>) = []"
  by (simp_all add: new_ResponseWriter_def)

lemma readValue_trailing:
  \<open>readValue ''{"messages":["a"]}x''
     = Some (JObject [(''messages'', JArray [JString ''a''])], ''x'')\<close>
  by code_simp

lemma Decode_trailing:
  \<open>Decode analyzeRequest_field zero_analyzeRequest ''{"messages":["a"]}x''
     = Inr \<lparr>Messages = Some [''a'']\<rparr>\<close>
  by (simp add: Decode_def readValue_trailing decode_struct_def analyzeRequest_field_def
        decode_strings_def decode_string_def zero_analyzeRequest_def)

text \<open>
  Claim C4 says, among other things, that a \<^verbatim>\<open>POST\<close> whose body is not valid JSON for the
  request schema is answered with 400 and that no backend call is made. The handler
  reads the body with \<^verbatim>\<open>json.NewDecoder(r.Body).Decode\<close>, which takes the first JSON
  value of the body and does not look at what follows it. The body
  \<^verbatim>\<open>{"messages":["a"]}x\<close> is not valid JSON, yet it is decoded as the list with the one
  message \<^verbatim>\<open>a\<close>: the backend is called for it (here it is down), and the answer is 200
  with an empty array.
\<close>

theorem trailing_data_counterexample:
  \<open>Method \<lparr>Method = ''POST'', Body = ''{"messages":["a"]}x''\<rparr> = ''POST''
   \<and> checkValid ''{"messages":["a"]}x'' = None
   \<and> (\<exists>w' wd'. api_analyze (plain_env refused) cfg0 new_ResponseWriter
                   \<lparr>Method = ''POST'', Body = ''{"messages":["a"]}x''\<rparr> w0 = (Done w', wd')
          \<and> status_sent w' = 200
          \<and> written w' = [Encoded (JArray [])]
          \<and> length (sent wd') = 1)\<close>
proof -
  have v: \<open>checkValid ''{"messages":["a"]}x'' = None\<close>
    by (simp add: checkValid_def readValue_trailing isSpace_def)
  have \<open>api_analyze (plain_env refused) cfg0 new_ResponseWriter
          \<lparr>Method = ''POST'', Body = ''{"messages":["a"]}x''\<rparr> w0
      = (Done (Write (Encoded (JArray []))
           (Header_Set ''Content-Type'' ''application/json''
             (new_ResponseWriter\<lparr>Header :=
                [''Access-Control-Allow-Origin'' \<mapsto> ''*'',
                 ''Access-Control-Allow-Methods'' \<mapsto> ''POST, OPTIONS'',
                 ''Access-Control-Allow-Headers'' \<mapsto> ''Content-Type'']\<rparr>))),
         w0\<lparr>sent := sent w0 @ [generate_request cfg0 ''Classify.''],
            logged := logged w0 @ [LogErrorAnalyzingMessage ''a''
              (ErrAPIRequestFailed
                 (Some ''dial tcp 127.0.0.1:11434: connect: connection refused''))]\<rparr>)\<close>
    by (simp add: api_analyze_def cors_passes handleAnalyze_def Decode_trailing len_def
          elems_def analyzeMessage_request refused_def read_reply_def Marshal_results_def)
  with v show ?thesis
    by (simp add: Write_def WriteHeader_def Header_Set_def status_sent_def
          new_ResponseWriter_def)
qed

text \<open>
  Claim C4, amended. On \<^verbatim>\<open>/api/analyze\<close>: a request whose method is neither \<^verbatim>\<open>POST\<close> nor
  \<^verbatim>\<open>OPTIONS\<close> is answered with 405; a \<^verbatim>\<open>POST\<close> whose body does not begin with a JSON
  value that fits the request struct (nothing can be read, or what is read is of the
  wrong type) is answered with 400; a \<^verbatim>\<open>POST\<close> whose decoded list of messages is empty is
  answered with 400. In each case the world is left as it was: no request is sent to the
  backend. Bytes after the first JSON value of the body are not examined.
\<close>

theorem api_analyze_rejects:
  "(Method r \<noteq> ''POST'' \<and> Method r \<noteq> ''OPTIONS'' \<longrightarrow>
      (\<exists>w'. api_analyze e cfg new_ResponseWriter r wd = (Done w', wd)
         \<and> status_sent w' = 405
         \<and> written w' = [Bytes (''Method not allowed'' @ [CHR 0x0A])]))
   \<and> (Method r = ''POST''
        \<and> (readValue (Body r) = None
            \<or> (\<exists>v unread. readValue (Body r) = Some (v, unread)
                  \<and> \<not> fits_struct analyzeRequest_member v)) \<longrightarrow>
      (\<exists>w'. api_analyze e cfg new_ResponseWriter r wd = (Done w', wd)
         \<and> status_sent w' = 400
         \<and> written w' = [Bytes (''Invalid request body'' @ [CHR 0x0A])]))
   \<and> (Method r = ''POST''
        \<and> Decode analyzeRequest_field zero_analyzeRequest (Body r) = Inr req
        \<and> len (Messages req) = 0 \<longrightarrow>
      (\<exists>w'. api_analyze e cfg new_ResponseWriter r wd = (Done w', wd)
         \<and> status_sent w' = 400
         \<and> written w' = [Bytes (''Messages array cannot be empty'' @ [CHR 0x0A])]))"
proof (intro conjI impI)
  assume "Method r \<noteq> ''POST'' \<and> Method r \<noteq> ''OPTIONS''"
  then show "\<exists>w'. api_analyze e cfg new_ResponseWriter r wd = (Done w', wd)
         \<and> status_sent w' = 405
         \<and> written w' = [Bytes (''Method not allowed'' @ [CHR 0x0A])]"
    by (simp add: api_analyze_def cors_passes handleAnalyze_rejects(1)
          http_Error_status_sent http_Error_written)
next
  assume a: "Method r = ''POST''
        \<and> (readValue (Body r) = None
            \<or> (\<exists>v unread. readValue (Body r) = Some (v, unread)
                  \<and> \<not> fits_struct analyzeRequest_member v))"
  then have "isl (Decode analyzeRequest_field zero_analyzeRequest (Body r))"
    unfolding isl_Decode [of analyzeRequest_field analyzeRequest_member, OF isl_analyzeRequest_field]
    by auto
  with a show "\<exists>w'. api_analyze e cfg new_ResponseWriter r wd = (Done w', wd)
         \<and> status_sent w' = 400
         \<and> written w' = [Bytes (''Invalid request body'' @ [CHR 0x0A])]"
    by (simp add: api_analyze_def cors_passes handleAnalyze_rejects(2)
          http_Error_status_sent http_Error_written)
next
  assume "Method r = ''POST''
        \<and> Decode analyzeRequest_field zero_analyzeRequest (Body r) = Inr req
        \<and> len (Messages req) = 0"
  then show "\<exists>w'. api_analyze e cfg new_ResponseWriter r wd = (Done w', wd)
         \<and> status_sent w' = 400
         \<and> written w' = [Bytes (''Messages array cannot be empty'' @ [CHR 0x0A])]"
    by (simp add: api_analyze_def cors_passes handleAnalyze_rejects(3)
          http_Error_status_sent http_Error_written)
qed

text \<open>The three rejections on concrete requests.\<close>

lemma readValue_prose: \<open>readValue ''hello'' = None\<close>
  by code_simp

lemma readValue_empty_list:
  \<open>readValue ''{"messages": []}'' = Some (JObject [(''messages'', JArray [])], [])\<close>
  by code_simp

lemma Decode_empty_list:
  \<open>Decode analyzeRequest_field zero_analyzeRequest ''{"messages": []}''
     = Inr \<lparr>Messages = Some []\<rparr>\<close>
  by (simp add: Decode_def readValue_empty_list decode_struct_def analyzeRequest_field_def
        decode_strings_def zero_analyzeRequest_def)

theorem api_analyze_rejects_witness:
  \<open>Method \<lparr>Method = ''GET'', Body = []\<rparr> \<noteq> ''POST''
   \<and> Method \<lparr>Method = ''GET'', Body = []\<rparr> \<noteq> ''OPTIONS''
   \<and> (\<exists>w'. api_analyze (plain_env refused) cfg0 new_ResponseWriter
               \<lparr>Method = ''GET'', Body = []\<rparr> w0 = (Done w', w0)
         \<and> status_sent w' = 405)
   \<and> readValue ''hello'' = None
   \<and> (\<exists>w'. api_analyze (plain_env refused) cfg0 new_ResponseWriter
               \<lparr>Method = ''POST'', Body = ''hello''\<rparr> w0 = (Done w', w0)
         \<and> status_sent w' = 400
         \<and> written w' = [Bytes (''Invalid request body'' @ [CHR 0x0A])])
   \<and> Decode analyzeRequest_field zero_analyzeRequest ''{"messages": []}''
        = Inr \<lparr>Messages = Some []\<rparr>
   \<and> len (Some ([] :: string list)) = 0
   \<and> (\<exists>w'. api_analyze (plain_env refused) cfg0 new_ResponseWriter
               \<lparr>Method = ''POST'', Body = ''{"messages": []}''\<rparr> w0 = (Done w', w0)
         \<and> status_sent w' = 400
         \<and> written w' = [Bytes (''Messages array cannot be empty'' @ [CHR 0x0A])])\<close>
proof -
  note t = api_analyze_rejects [where e = "plain_env refused" and cfg = cfg0 and wd = w0]
  have a: "\<exists>w'. api_analyze (plain_env refused) cfg0 new_ResponseWriter
               \<lparr>Method = ''GET'', Body = []\<rparr> w0 = (Done w', w0)
         \<and> status_sent w' = 405"
    using t [where r = "\<lparr>Method = ''GET'', Body = []\<rparr>"] by auto
  have b: "\<exists>w'. api_analyze (plain_env refused) cfg0 new_ResponseWriter
               \<lparr>Method = ''POST'', Body = ''hello''\<rparr> w0 = (Done w', w0)
         \<and> status_sent w' = 400
         \<and> written w' = [Bytes (''Invalid request body'' @ [CHR 0x0A])]"
    using t [where r = "\<lparr>Method = ''POST'', Body = ''hello''\<rparr>"]
    by (simp add: readValue_prose)
  have c: \<open>\<exists>w'. api_analyze (plain_env refused) cfg0 new_ResponseWriter
               \<lparr>Method = ''POST'', Body = ''{"messages": []}''\<rparr> w0 = (Done w', w0)
         \<and> status_sent w' = 400
         \<and> written w' = [Bytes (''Messages array cannot be empty'' @ [CHR 0x0A])]\<close>
    using t [where r = \<open>\<lparr>Method = ''POST'', Body = ''{"messages": []}''\<rparr>\<close>
          and req = "\<lparr>Messages = Some []\<rparr>"]
    by (simp add: Decode_empty_list len_def)
  show ?thesis
    using a b c by (simp add: readValue_prose Decode_empty_list len_def)
qed

section \<open>A body without messages\<close>





lemma not_names_messages [simp]: "\<not> names_field ''texts'' ''messages''"
  using names_field_length [of "''texts''" "''messages''"] by auto


section \<open>The batch\<close>

text \<open>
  The loop of \<open>handleAnalyze\<close> returns the results of the calls that succeeded, in the
  order of the messages, unless a call panics.
\<close>

lemma analyzeMessage_Content:
  assumes "analyzeMessage e cfg message w = (Done (Inr result), w')"
  shows "Content result = message"
proof (cases "generatePrompt e message (Policies cfg) (PromptTemplate cfg)")
  case (Inl err)
  with assms show ?thesis by (simp add: analyzeMessage_no_prompt)
next
  case (Inr prompt)
  show ?thesis
  proof (cases "url_Parse e (OllamaURL cfg @ ''/api/generate'')")
    case (Some err)
    with Inr assms show ?thesis by (simp add: analyzeMessage_no_request)
  next
    case None
    with Inr assms
    have "read_reply message (RoundTrip e (length (sent w)) (generate_request cfg prompt))
        = Inr result"
      by (simp add: analyzeMessage_request)
    then show ?thesis
      by (auto simp: read_reply_def split: sum.splits if_splits)
  qed
qed

lemma analyze_loop_results:
  assumes "list_all returned (analyses e cfg ms w)"
  shows "fst (analyze_loop e cfg ms acc w) = Done (acc @ results_of (analyses e cfg ms w))"
  using assms
proof (induction ms arbitrary: acc w)
  case Nil
  show ?case by simp
next
  case (Cons m ms)
  obtain x w' where am: "analyzeMessage e cfg m w = (x, w')"
    by (cases "analyzeMessage e cfg m w")
  show ?case
  proof (cases x)
    case (Panic p)
    with am Cons.prems show ?thesis by (simp add: returned_def)
  next
    case (Done y)
    show ?thesis
    proof (cases y)
      case (Inl err)
      with Done am Cons.prems Cons.IH [of "w'\<lparr>logged := logged w' @ [LogErrorAnalyzingMessage m err]\<rparr>" acc]
      show ?thesis by simp
    next
      case (Inr result)
      with Done am Cons.prems Cons.IH [of w' "acc @ [result]"]
      show ?thesis by simp
    qed
  qed
qed

lemma analyses_length:
  assumes "list_all returned (analyses e cfg ms w)"
  shows "length (analyses e cfg ms w) = length ms"
  using assms
proof (induction ms arbitrary: w)
  case Nil
  show ?case by simp
next
  case (Cons m ms)
  obtain x w' where am: "analyzeMessage e cfg m w = (x, w')"
    by (cases "analyzeMessage e cfg m w")
  show ?case
  proof (cases x)
    case (Panic p)
    with am Cons.prems show ?thesis by (simp add: returned_def)
  next
    case (Done y)
    with am Cons.prems Cons.IH show ?thesis
      by (cases y) simp_all
  qed
qed

lemma results_in_order:
  assumes "list_all returned (analyses e cfg ms w)"
  shows "map Content (results_of (analyses e cfg ms w))
     = map fst (filter (\<lambda>(m, x). succeeded x) (zip ms (analyses e cfg ms w)))"
  using assms
proof (induction ms arbitrary: w)
  case Nil
  show ?case by simp
next
  case (Cons m ms)
  obtain x w' where am: "analyzeMessage e cfg m w = (x, w')"
    by (cases "analyzeMessage e cfg m w")
  show ?case
  proof (cases x)
    case (Panic p)
    with am Cons.prems show ?thesis by (simp add: returned_def)
  next
    case (Done y)
    show ?thesis
    proof (cases y)
      case (Inl err)
      with Done am Cons.prems Cons.IH show ?thesis by (simp add: succeeded_def)
    next
      case (Inr result)
      with Done am Cons.prems Cons.IH analyzeMessage_Content [of e cfg m w result w']
      show ?thesis by (simp add: succeeded_def)
    qed
  qed
qed

lemma results_all:
  assumes "list_all succeeded xs"
  shows "length (results_of xs) = length xs"
  using assms by (induction xs rule: results_of.induct) (simp_all add: succeeded_def)

lemma succeeded_returned: "succeeded x \<Longrightarrow> returned x"
  by (auto simp: succeeded_def returned_def split: run.splits)

lemma handleAnalyze_batch:
  assumes "Method r = ''POST''"
    and "Decode analyzeRequest_field zero_analyzeRequest (Body r) = Inr req"
    and "Messages req = Some msgs" and "msgs \<noteq> []"
    and "list_all returned (analyses e cfg msgs wd)"
  shows "\<exists>w' wd'. api_analyze e cfg new_ResponseWriter r wd = (Done w', wd')
     \<and> status_sent w' = 200
     \<and> Header w' ''Content-Type'' = Some ''application/json''
     \<and> written w' = [Encoded (JArray (map Marshal_analysisResult
                                     (results_of (analyses e cfg msgs wd))))]"
proof -
  obtain x wd' where loop: "analyze_loop e cfg msgs [] wd = (x, wd')"
    by (cases "analyze_loop e cfg msgs [] wd")
  with analyze_loop_results [OF assms(5), of "[]"]
  have x: "x = Done (results_of (analyses e cfg msgs wd))"
    by simp
  have m: "Method r \<noteq> ''OPTIONS''" using assms(1) by simp
  show ?thesis
    using assms(1-4) m loop x
    by (simp add: api_analyze_def cors_passes handleAnalyze_def len_def elems_def
          Write_def WriteHeader_def Header_Set_def status_sent_def Marshal_results_def)
qed

lemma all_succeeded_kept:
  assumes "length ms = length xs" and "list_all succeeded xs"
  shows "map fst (filter (\<lambda>(m, x). succeeded x) (zip ms xs)) = ms"
  using assms by (induction ms xs rule: list_induct2) simp_all

lemma Decode_messages_hi:
  \<open>Decode analyzeRequest_field zero_analyzeRequest ''{"messages":["hi"]}''
     = Inr \<lparr>Messages = Some [''hi'']\<rparr>\<close>
  by code_simp

lemma Decode_messages_two:
  \<open>Decode analyzeRequest_field zero_analyzeRequest ''{"messages":["a","b"]}''
     = Inr \<lparr>Messages = Some [''a'', ''b'']\<rparr>\<close>
  by code_simp

lemma Decode_reply_safe:
  \<open>Decode ollamaResp_field zero_ollamaResp (generate_reply ''{"safe":true}'')
     = Inr \<lparr>Response = ''{"safe":true}''\<rparr>\<close>
  by code_simp

lemma Unmarshal_safe:
  \<open>Unmarshal moderationResult_field zero_moderationResult ''{"safe":true}''
     = Inr \<lparr>Safe = True, ViolatedPolicies_mod = None\<rparr>\<close>
  by code_simp

lemma read_reply_safe:
  \<open>read_reply message (Inr \<lparr>StatusCode = 200, resp_Body = generate_reply ''{"safe":true}''\<rparr>)
     = Inr \<lparr>Content = message, IsSafe = True, ViolatedPolicies = None\<rparr>\<close>
  by (simp add: read_reply_def Decode_reply_safe Unmarshal_safe)

lemma read_reply_refusal:
  \<open>read_reply message (Inr \<lparr>StatusCode = 200, resp_Body = generate_reply ''Sorry, no.''\<rparr>)
     = Inl (ErrParsingModerationResult SyntaxError)\<close>
  by (simp add: read_reply_def Decode_reply_refusal Unmarshal_def checkValid_refusal)

lemma analyses_hi:
  \<open>analyses (plain_env (answers 200 (generate_reply ''{"safe":true}''))) cfg0 [''hi''] w0
     = [Done (Inr \<lparr>Content = ''hi'', IsSafe = True, ViolatedPolicies = None\<rparr>)]\<close>
  by (simp add: analyzeMessage_request answers_def read_reply_safe)

lemma analyses_two:
  \<open>analyses (plain_env (first_then \<lparr>StatusCode = 200, resp_Body = generate_reply ''{"safe":true}''\<rparr>
                                   \<lparr>StatusCode = 200, resp_Body = generate_reply ''Sorry, no.''\<rparr>))
      cfg0 [''a'', ''b''] w0
     = [Done (Inr \<lparr>Content = ''a'', IsSafe = True, ViolatedPolicies = None\<rparr>),
        Done (Inl (ErrParsingModerationResult SyntaxError))]\<close>
  by (simp add: analyzeMessage_request first_then_def read_reply_safe read_reply_refusal)

text \<open>
  Every analysis succeeds when the prompt renders for each message, the URL of the
  backend parses, and the backend answers every request with status 200 and an envelope
  whose response text parses as a moderation result.
\<close>

lemma healthy_backend_succeeds:
  assumes "\<And>m. m \<in> set msgs \<Longrightarrow> \<exists>p. generatePrompt e m (Policies cfg) (PromptTemplate cfg) = Inr p"
    and "url_Parse e (OllamaURL cfg @ ''/api/generate'') = None"
    and "\<And>n req. \<exists>resp ollamaResp m. RoundTrip e n req = Inr resp \<and> StatusCode resp = 200
          \<and> Decode ollamaResp_field zero_ollamaResp (resp_Body resp) = Inr ollamaResp
          \<and> Unmarshal moderationResult_field zero_moderationResult (Response ollamaResp) = Inr m"
  shows "list_all succeeded (analyses e cfg msgs w)"
  using assms(1)
proof (induction msgs arbitrary: w)
  case Nil
  show ?case by simp
next
  case (Cons msg msgs)
  from Cons.prems obtain p where p: "generatePrompt e msg (Policies cfg) (PromptTemplate cfg) = Inr p"
    by auto
  from assms(3) [of "length (sent w)" "generate_request cfg p"]
  obtain result where "read_reply msg (RoundTrip e (length (sent w)) (generate_request cfg p))
      = Inr result"
    by (auto simp: read_reply_def)
  with p assms(2) have "analyzeMessage e cfg msg w
      = (Done (Inr result), w\<lparr>sent := sent w @ [generate_request cfg p]\<rparr>)"
    by (simp add: analyzeMessage_request)
  moreover have "list_all succeeded (analyses e cfg msgs (w\<lparr>sent := sent w @ [generate_request cfg p]\<rparr>))"
    using Cons.prems by (intro Cons.IH) auto
  moreover have "succeeded (Done (Inr result))"
    by (simp add: succeeded_def)
  ultimately show ?case
    by simp
qed

text \<open>
  Claim C1. A \<^verbatim>\<open>POST\<close> to \<^verbatim>\<open>/api/analyze\<close> carries a non-empty list of messages, and the
  analysis of every message succeeds. Then the response has status 200 and its body is
  the encoding of a JSON array with one element for each message, in the order of the
  messages; the element at position \<open>i\<close> is an object whose \<^verbatim>\<open>content\<close> is the message at
  position \<open>i\<close>.
\<close>

theorem all_messages_answered:
  assumes "Method r = ''POST''"
    and "Decode analyzeRequest_field zero_analyzeRequest (Body r) = Inr req"
    and "Messages req = Some msgs" and "msgs \<noteq> []"
    and "list_all succeeded (analyses e cfg msgs wd)"
  shows "\<exists>w' wd' results. api_analyze e cfg new_ResponseWriter r wd = (Done w', wd')
     \<and> status_sent w' = 200
     \<and> Header w' ''Content-Type'' = Some ''application/json''
     \<and> written w' = [Encoded (JArray (map Marshal_analysisResult results))]
     \<and> length results = length msgs
     \<and> (\<forall>i < length msgs.
           map Marshal_analysisResult results ! i
             = JObject [(''content'', JString (msgs ! i)),
                        (''is_safe'', JBool (IsSafe (results ! i))),
                        (''violated_policies'', Marshal_strings (ViolatedPolicies (results ! i)))])"
proof -
  let ?xs = "analyses e cfg msgs wd"
  have ret: "list_all returned ?xs"
    using assms(5) succeeded_returned by (auto simp: list_all_iff)
  have len: "length ?xs = length msgs"
    by (rule analyses_length [OF ret])
  have n: "length (results_of ?xs) = length msgs"
    using results_all [OF assms(5)] len by simp
  have "map Content (results_of ?xs) = msgs"
    using results_in_order [OF ret] all_succeeded_kept [OF len [symmetric] assms(5)] by simp
  then have c: "Content (results_of ?xs ! i) = msgs ! i" if "i < length msgs" for i
    using that n by (metis nth_map)
  have "map Marshal_analysisResult (results_of ?xs) ! i
      = JObject [(''content'', JString (msgs ! i)),
                 (''is_safe'', JBool (IsSafe (results_of ?xs ! i))),
                 (''violated_policies'', Marshal_strings (ViolatedPolicies (results_of ?xs ! i)))]"
    if "i < length msgs" for i
    using that n c [OF that] by (simp add: Marshal_analysisResult_def)
  with handleAnalyze_batch [OF assms(1-4) ret] n show ?thesis
    by blast
qed

text \<open>One message and a backend whose model answers \<^verbatim>\<open>{"safe":true}\<close>.\<close>

theorem all_messages_answered_witness:
  \<open>Method \<lparr>Method = ''POST'', Body = ''{"messages":["hi"]}''\<rparr> = ''POST''
   \<and> Decode analyzeRequest_field zero_analyzeRequest ''{"messages":["hi"]}''
       = Inr \<lparr>Messages = Some [''hi'']\<rparr>
   \<and> list_all succeeded
         (analyses (plain_env (answers 200 (generate_reply ''{"safe":true}''))) cfg0 [''hi''] w0)
   \<and> (\<exists>w' wd'.
         api_analyze (plain_env (answers 200 (generate_reply ''{"safe":true}''))) cfg0
           new_ResponseWriter \<lparr>Method = ''POST'', Body = ''{"messages":["hi"]}''\<rparr> w0
           = (Done w', wd')
         \<and> status_sent w' = 200
         \<and> written w' = [Encoded (JArray [JObject [(''content'', JString ''hi''),
                                                   (''is_safe'', JBool True),
                                                   (''violated_policies'', JNull)]])])\<close>
proof -
  let ?e = \<open>plain_env (answers 200 (generate_reply ''{"safe":true}''))\<close>
  let ?r = \<open>\<lparr>Method = ''POST'', Body = ''{"messages":["hi"]}''\<rparr>\<close>
  have s: "list_all succeeded (analyses ?e cfg0 [''hi''] w0)"
    unfolding analyses_hi by (simp add: succeeded_def)
  have m: "Method ?r = ''POST''"
    by simp
  have d: "Decode analyzeRequest_field zero_analyzeRequest (Body ?r) = Inr \<lparr>Messages = Some [''hi'']\<rparr>"
    by (simp add: Decode_messages_hi)
  have l: "Messages \<lparr>Messages = Some [''hi'']\<rparr> = Some [''hi'']" and n: "[''hi''] \<noteq> []"
    by simp_all
  from all_messages_answered [OF m d l n s] obtain w' wd' results
    where run: "api_analyze ?e cfg0 new_ResponseWriter ?r w0 = (Done w', wd')"
      and st: "status_sent w' = 200"
      and wr: "written w' = [Encoded (JArray (map Marshal_analysisResult results))]"
      and len: "length results = length [''hi'']"
      and el: "\<forall>i < length [''hi'']. map Marshal_analysisResult results ! i
             = JObject [(''content'', JString ([''hi''] ! i)),
                        (''is_safe'', JBool (IsSafe (results ! i))),
                        (''violated_policies'', Marshal_strings (ViolatedPolicies (results ! i)))]"
    by blast
  have ret: "list_all returned (analyses ?e cfg0 [''hi''] w0)"
    unfolding analyses_hi by (simp add: returned_def)
  from handleAnalyze_batch [OF m d l n ret] obtain w'' wd''
    where run': "api_analyze ?e cfg0 new_ResponseWriter ?r w0 = (Done w'', wd'')"
      and wr': "written w'' = [Encoded (JArray (map Marshal_analysisResult
                           (results_of (analyses ?e cfg0 [''hi''] w0))))]"
    by blast
  from run run' have "w' = w''"
    by simp
  with wr' have "written w' = [Encoded (JArray [JObject [(''content'', JString ''hi''),
                                                   (''is_safe'', JBool True),
                                                   (''violated_policies'', JNull)]])]"
    unfolding analyses_hi by (simp add: Marshal_analysisResult_def Marshal_strings_def)
  with run st s show ?thesis
    by (auto simp: Decode_messages_hi)
qed

text \<open>
  Claim C2. A \<^verbatim>\<open>POST\<close> to \<^verbatim>\<open>/api/analyze\<close> carries a non-empty list of messages, and each
  call of \<open>analyzeMessage\<close> returns, with a result or with an error. Then the response
  has status 200 and its body is the encoding of the array of the results, one for
  each message whose analysis succeeded, in the order of the messages: the \<^verbatim>\<open>content\<close>
  fields of the array are the messages that succeeded. A message whose analysis failed
  leaves nothing in the body.
\<close>

theorem failed_messages_omitted:
  assumes "Method r = ''POST''"
    and "Decode analyzeRequest_field zero_analyzeRequest (Body r) = Inr req"
    and "Messages req = Some msgs" and "msgs \<noteq> []"
    and "list_all returned (analyses e cfg msgs wd)"
  shows "\<exists>w' wd'. api_analyze e cfg new_ResponseWriter r wd = (Done w', wd')
     \<and> status_sent w' = 200
     \<and> written w' = [Encoded (JArray (map Marshal_analysisResult
                                     (results_of (analyses e cfg msgs wd))))]
     \<and> length (analyses e cfg msgs wd) = length msgs
     \<and> map Content (results_of (analyses e cfg msgs wd))
         = map fst (filter (\<lambda>(m, x). succeeded x) (zip msgs (analyses e cfg msgs wd)))"
  using handleAnalyze_batch [OF assms] analyses_length [OF assms(5)] results_in_order [OF assms(5)]
  by auto

text \<open>
  Two messages; the model answers the first with \<^verbatim>\<open>{"safe":true}\<close> and the second in
  prose. The array has the one element for the first message.
\<close>

theorem failed_messages_omitted_witness:
  \<open>Method \<lparr>Method = ''POST'', Body = ''{"messages":["a","b"]}''\<rparr> = ''POST''
   \<and> Decode analyzeRequest_field zero_analyzeRequest ''{"messages":["a","b"]}''
       = Inr \<lparr>Messages = Some [''a'', ''b'']\<rparr>
   \<and> analyses (plain_env (first_then
           \<lparr>StatusCode = 200, resp_Body = generate_reply ''{"safe":true}''\<rparr>
           \<lparr>StatusCode = 200, resp_Body = generate_reply ''Sorry, no.''\<rparr>)) cfg0 [''a'', ''b''] w0
       = [Done (Inr \<lparr>Content = ''a'', IsSafe = True, ViolatedPolicies = None\<rparr>),
          Done (Inl (ErrParsingModerationResult SyntaxError))]
   \<and> (\<exists>w' wd'.
         api_analyze (plain_env (first_then
             \<lparr>StatusCode = 200, resp_Body = generate_reply ''{"safe":true}''\<rparr>
             \<lparr>StatusCode = 200, resp_Body = generate_reply ''Sorry, no.''\<rparr>)) cfg0
           new_ResponseWriter \<lparr>Method = ''POST'', Body = ''{"messages":["a","b"]}''\<rparr> w0
           = (Done w', wd')
         \<and> status_sent w' = 200
         \<and> written w' = [Encoded (JArray [JObject [(''content'', JString ''a''),
                                                   (''is_safe'', JBool True),
                                                   (''violated_policies'', JNull)]])])\<close>
proof -
  let ?e = \<open>plain_env (first_then
           \<lparr>StatusCode = 200, resp_Body = generate_reply ''{"safe":true}''\<rparr>
           \<lparr>StatusCode = 200, resp_Body = generate_reply ''Sorry, no.''\<rparr>)\<close>
  let ?r = \<open>\<lparr>Method = ''POST'', Body = ''{"messages":["a","b"]}''\<rparr>\<close>
  have s: "list_all returned (analyses ?e cfg0 [''a'', ''b''] w0)"
    unfolding analyses_two by (simp add: returned_def)
  have m: "Method ?r = ''POST''"
    by simp
  have d: "Decode analyzeRequest_field zero_analyzeRequest (Body ?r)
      = Inr \<lparr>Messages = Some [''a'', ''b'']\<rparr>"
    by (simp add: Decode_messages_two)
  have l: "Messages \<lparr>Messages = Some [''a'', ''b'']\<rparr> = Some [''a'', ''b'']"
    and n: "[''a'', ''b''] \<noteq> []"
    by simp_all
  from failed_messages_omitted [OF m d l n s] show ?thesis
    unfolding analyses_two
    by (auto simp: Decode_messages_two Marshal_analysisResult_def Marshal_strings_def)
qed

section \<open>One request for one message\<close>

text \<open>
  Claim C8 says that for every message \<open>analyzeMessage\<close> processes, exactly one
  \<^verbatim>\<open>POST\<close> is sent to the backend. The function renders the prompt first and returns
  when that fails. With the prompt template \<^verbatim>\<open>{{\<close>, which the configuration loader
  accepts (it is not empty) and \<^verbatim>\<open>text/template\<close> rejects as an unclosed action, the
  message fails and no request is sent.
\<close>

theorem unrendered_prompt_counterexample:
  "generatePrompt (plain_env (answers 200 [])) ''hi'' (Policies cfg0) ''{{''
     = Inl (ErrParsingTemplate ''unclosed action'')
   \<and> analyzeMessage (plain_env (answers 200 [])) (cfg0\<lparr>PromptTemplate := ''{{''\<rparr>) ''hi'' w0
       = (Done (Inl (ErrGeneratingPrompt (ErrParsingTemplate ''unclosed action''))), w0)
   \<and> sent (snd (analyzeMessage (plain_env (answers 200 [])) (cfg0\<lparr>PromptTemplate := ''{{''\<rparr>)
                  ''hi'' w0)) = []"
proof -
  have g: "generatePrompt (plain_env (answers 200 [])) ''hi'' (Policies cfg0) ''{{''
      = Inl (ErrParsingTemplate ''unclosed action'')"
    by (simp add: generatePrompt_def)
  then have "analyzeMessage (plain_env (answers 200 [])) (cfg0\<lparr>PromptTemplate := ''{{''\<rparr>) ''hi'' w0
       = (Done (Inl (ErrGeneratingPrompt (ErrParsingTemplate ''unclosed action''))), w0)"
    by (simp add: analyzeMessage_no_prompt)
  with g show ?thesis by simp
qed

text \<open>
  Claim C8, amended. When the prompt cannot be rendered, \<open>analyzeMessage\<close> returns
  an error and sends nothing. When the prompt is rendered and the URL of the backend
  parses, it sends exactly one request, whatever the outcome: a \<^verbatim>\<open>POST\<close> to the
  configured URL followed by \<^verbatim>\<open>/api/generate\<close>, with content type JSON and a body whose
  \<^verbatim>\<open>model\<close> is the configured model, whose \<^verbatim>\<open>prompt\<close> is the rendered prompt, whose
  \<^verbatim>\<open>stream\<close> is false and whose \<^verbatim>\<open>format\<close> is the configured response format. A
  transport error and a status other than 200 each make the message fail. A message
  that fails is logged by the loop, which goes on with the next message: nothing is
  sent again.
\<close>

theorem analyzeMessage_one_request:
  "(\<forall>err. generatePrompt e message (Policies cfg) (PromptTemplate cfg) = Inl err \<longrightarrow>
       analyzeMessage e cfg message w = (Done (Inl (ErrGeneratingPrompt err)), w))
   \<and> (generatePrompt e message (Policies cfg) (PromptTemplate cfg) = Inr prompt
        \<and> url_Parse e (OllamaURL cfg @ ''/api/generate'') = None \<longrightarrow>
       sent (snd (analyzeMessage e cfg message w))
         = sent w @ [\<lparr>out_Method = ''POST'',
                       out_URL = OllamaURL cfg @ ''/api/generate'',
                       out_Header = [(''Content-Type'', ''application/json'')],
                       out_Body = Some (JObject [(''model'', JString (Model cfg)),
                                                 (''prompt'', JString prompt),
                                                 (''stream'', JBool False),
                                                 (''format'', ResponseFormat cfg)])\<rparr>]
       \<and> (\<forall>err. RoundTrip e (length (sent w)) (generate_request cfg prompt) = Inl err \<longrightarrow>
              fst (analyzeMessage e cfg message w) = Done (Inl (ErrAPIRequestFailed (Some err))))
       \<and> (\<forall>resp. RoundTrip e (length (sent w)) (generate_request cfg prompt) = Inr resp
                \<and> StatusCode resp \<noteq> 200 \<longrightarrow>
              fst (analyzeMessage e cfg message w) = Done (Inl (ErrAPIRequestFailed None))))
   \<and> (\<forall>err w'. analyzeMessage e cfg message w = (Done (Inl err), w') \<longrightarrow>
         analyze_loop e cfg (message # rest) results w
           = analyze_loop e cfg rest results
               (w'\<lparr>logged := logged w' @ [LogErrorAnalyzingMessage message err]\<rparr>))"
proof (intro conjI allI impI)
  fix err
  assume "generatePrompt e message (Policies cfg) (PromptTemplate cfg) = Inl err"
  then show "analyzeMessage e cfg message w = (Done (Inl (ErrGeneratingPrompt err)), w)"
    by (rule analyzeMessage_no_prompt)
next
  assume a: "generatePrompt e message (Policies cfg) (PromptTemplate cfg) = Inr prompt
        \<and> url_Parse e (OllamaURL cfg @ ''/api/generate'') = None"
  then have am: "analyzeMessage e cfg message w
     = (Done (read_reply message (RoundTrip e (length (sent w)) (generate_request cfg prompt))),
        w\<lparr>sent := sent w @ [generate_request cfg prompt]\<rparr>)"
    by (simp add: analyzeMessage_request)
  then show "sent (snd (analyzeMessage e cfg message w))
         = sent w @ [\<lparr>out_Method = ''POST'',
                       out_URL = OllamaURL cfg @ ''/api/generate'',
                       out_Header = [(''Content-Type'', ''application/json'')],
                       out_Body = Some (JObject [(''model'', JString (Model cfg)),
                                                 (''prompt'', JString prompt),
                                                 (''stream'', JBool False),
                                                 (''format'', ResponseFormat cfg)])\<rparr>]"
    by (simp add: generate_request_def)
  {
    fix err
    assume "RoundTrip e (length (sent w)) (generate_request cfg prompt) = Inl err"
    with am show "fst (analyzeMessage e cfg message w) = Done (Inl (ErrAPIRequestFailed (Some err)))"
      by (simp add: read_reply_def)
  }
  {
    fix resp
    assume "RoundTrip e (length (sent w)) (generate_request cfg prompt) = Inr resp
                \<and> StatusCode resp \<noteq> 200"
    with am show "fst (analyzeMessage e cfg message w) = Done (Inl (ErrAPIRequestFailed None))"
      by (simp add: read_reply_def)
  }
next
  fix err w'
  assume "analyzeMessage e cfg message w = (Done (Inl err), w')"
  then show "analyze_loop e cfg (message # rest) results w
           = analyze_loop e cfg rest results
               (w'\<lparr>logged := logged w' @ [LogErrorAnalyzingMessage message err]\<rparr>)"
    by simp
qed

text \<open>One message with the backend down, and with a backend that answers 503.\<close>

theorem analyzeMessage_one_request_witness:
  "generatePrompt (plain_env refused) ''hi'' (Policies cfg0) (PromptTemplate cfg0) = Inr ''Classify.''
   \<and> url_Parse (plain_env refused) (OllamaURL cfg0 @ ''/api/generate'') = None
   \<and> sent (snd (analyzeMessage (plain_env refused) cfg0 ''hi'' w0))
       = [\<lparr>out_Method = ''POST'',
            out_URL = ''http://localhost:11434/api/generate'',
            out_Header = [(''Content-Type'', ''application/json'')],
            out_Body = Some (JObject [(''model'', JString ''mistral''),
                                      (''prompt'', JString ''Classify.''),
                                      (''stream'', JBool False),
                                      (''format'', JNull)])\<rparr>]
   \<and> fst (analyzeMessage (plain_env refused) cfg0 ''hi'' w0)
       = Done (Inl (ErrAPIRequestFailed
                      (Some ''dial tcp 127.0.0.1:11434: connect: connection refused'')))
   \<and> fst (analyzeMessage (plain_env (answers 503 ''busy'')) cfg0 ''hi'' w0)
       = Done (Inl (ErrAPIRequestFailed None))
   \<and> length (sent (snd (analyzeMessage (plain_env (answers 503 ''busy'')) cfg0 ''hi'' w0))) = 1
   \<and> fst (analyze_loop (plain_env refused) cfg0 [''hi''] [] w0) = Done []
   \<and> logged (snd (analyze_loop (plain_env refused) cfg0 [''hi''] [] w0))
       = [LogErrorAnalyzingMessage ''hi''
            (ErrAPIRequestFailed
               (Some ''dial tcp 127.0.0.1:11434: connect: connection refused''))]"
proof -
  note t = analyzeMessage_one_request [where cfg = cfg0 and message = "''hi''" and w = w0
      and prompt = "''Classify.''"]
  have a: "analyzeMessage (plain_env refused) cfg0 ''hi'' w0
      = (Done (Inl (ErrAPIRequestFailed
                      (Some ''dial tcp 127.0.0.1:11434: connect: connection refused''))),
         w0\<lparr>sent := [generate_request cfg0 ''Classify.'']\<rparr>)"
    by (simp add: analyzeMessage_request read_reply_def refused_def)
  show ?thesis
    using t [where e = "plain_env refused" and rest = "[]" and results = "[]"]
      t [where e = "plain_env (answers 503 ''busy'')"] a
    by (simp add: refused_def answers_def)
qed

section \<open>A verdict without violated policies\<close>












section \<open>Loading the configuration\<close>









end
